theory Spec2Isabelle
  imports Complex_Main
begin

section \<open>Tournament matchmaking backend: data model\<close>

text \<open>
  The development follows the services of the backend: \<^verbatim>\<open>RedisService\<close> (queues, match
  hashes, participant status, locks), \<^verbatim>\<open>AIOpponentService\<close> (roster, opponent selection,
  response simulation), \<^verbatim>\<open>MatchmakingEngine\<close> (search lifecycle) and the match-found
  notification of \<^verbatim>\<open>WebSocketService\<close>.

  JavaScript numbers that carry a skill level, an accuracy or a delay are modelled as
  \<^typ>\<open>real\<close> (IEEE rounding is not modelled); round numbers, question numbers and
  timestamps are \<^typ>\<open>int\<close>; identifiers and names are \<^typ>\<open>string\<close>.
\<close>

subsection \<open>Participants and queue entries\<close>

text \<open>
  \<^verbatim>\<open>participantData\<close> as \<^verbatim>\<open>startMatchmaking\<close> receives it. \<^verbatim>\<open>participantName\<close> may be
  absent (\<open>None\<close>). A queue entry is the same object extended with \<^verbatim>\<open>joinedAt\<close> and
  \<^verbatim>\<open>status\<close>.
\<close>

record participant_data =
  participantId :: string
  participantName :: "string option"
  roundNumber :: int
  skillLevel :: real
  treatmentGroup :: string

record queue_entry = participant_data +
  joinedAt :: int
  entry_status :: string

section \<open>Skill-window selection of the MatchmakingEngine\<close>

text \<open>
  \<^verbatim>\<open>Array.prototype.reduce\<close> without an initial value: the first element seeds the
  accumulator; on an empty array it throws a TypeError (\<open>None\<close>).
\<close>

fun reduce :: "('a \<Rightarrow> 'a \<Rightarrow> 'a) \<Rightarrow> 'a list \<Rightarrow> 'a option" where
  "reduce f [] = None"
| "reduce f (x # xs) = Some (foldl f x xs)"

text \<open>The callback of both \<^verbatim>\<open>reduce\<close> calls: keep \<open>closest\<close> unless \<open>current\<close> is strictly nearer.\<close>

definition closer :: "('a \<Rightarrow> real) \<Rightarrow> real \<Rightarrow> 'a \<Rightarrow> 'a \<Rightarrow> 'a" where
  "closer skill s closest current =
     (let currentDiff = \<bar>skill current - s\<bar>;
          closestDiff = \<bar>skill closest - s\<bar>
      in if currentDiff < closestDiff then current else closest)"

text \<open>
  \<^verbatim>\<open>findBestSkillMatch(participantSkillLevel, waitingParticipants)\<close>; the threshold is
  \<^verbatim>\<open>config.matchmaking.skillMatchingThreshold\<close>, passed as the first argument.
\<close>

definition findBestSkillMatch ::
  "real \<Rightarrow> real \<Rightarrow> ('a participant_data_scheme) list \<Rightarrow> ('a participant_data_scheme) option" where
  "findBestSkillMatch threshold participantSkillLevel waitingParticipants =
     (if length waitingParticipants = 0 then None
      else
        let suitableMatches =
              filter (\<lambda>participant. \<bar>skillLevel participant - participantSkillLevel\<bar> \<le> threshold)
                waitingParticipants
        in if length suitableMatches = 0
           then reduce (closer skillLevel participantSkillLevel) waitingParticipants
           else Some (suitableMatches ! 0))"


section \<open>JavaScript values\<close>

text \<open>Errors thrown by the services: every \<^verbatim>\<open>throw\<close> of the source becomes a value.\<close>

datatype error =
    TypeError            \<comment> \<open>property read on \<^verbatim>\<open>undefined\<close>/\<^verbatim>\<open>null\<close>, \<^verbatim>\<open>reduce\<close> of an empty array\<close>
  | SelfMatch            \<comment> \<open>\<^verbatim>\<open>new Error('Self-match attempted')\<close>\<close>
  | StoreError           \<comment> \<open>a command of the Redis client rejected\<close>
  | DatabaseError        \<comment> \<open>a call of \<^verbatim>\<open>DatabaseService\<close> rejected\<close>

text \<open>
  JSON-able values, as the opponent descriptors and AI settings are built before
  \<^verbatim>\<open>JSON.stringify\<close>. A string that holds the JSON text of a value is represented by that
  value (\<open>Stringified\<close>): \<^verbatim>\<open>JSON.parse\<close> of it gives the value back. A property whose value
  is \<^verbatim>\<open>undefined\<close> stands for a property the text does not have; a read of either gives
  \<^verbatim>\<open>undefined\<close>.
\<close>

datatype jsval =
    JUndefined
  | JNull
  | JBool bool
  | JNum real
  | JStr string
  | JObj "(string \<times> jsval) list"

datatype json_text = Stringified jsval

definition JSON_stringify :: "jsval \<Rightarrow> json_text" where
  "JSON_stringify v = Stringified v"

fun JSON_parse :: "json_text \<Rightarrow> jsval" where
  "JSON_parse (Stringified v) = v"

text \<open>
  Property read \<^verbatim>\<open>v.k\<close>: a TypeError on \<^verbatim>\<open>undefined\<close> and \<^verbatim>\<open>null\<close>, \<^verbatim>\<open>undefined\<close> for a
  missing property or a primitive.
\<close>

fun property :: "jsval \<Rightarrow> string \<Rightarrow> error + jsval" where
  "property JUndefined k = Inl TypeError"
| "property JNull k = Inl TypeError"
| "property (JObj kvs) k = (case map_of kvs k of None \<Rightarrow> Inr JUndefined | Some v \<Rightarrow> Inr v)"
| "property v k = Inr JUndefined"


fun truthy_str :: "string option \<Rightarrow> bool" where
  "truthy_str None = False"
| "truthy_str (Some s) = (s \<noteq> [])"

text \<open>\<^verbatim>\<open>arr[k]\<close> for an integer \<open>k\<close>: \<^verbatim>\<open>undefined\<close> (\<open>None\<close>) outside the array.\<close>

definition index :: "'a list \<Rightarrow> int \<Rightarrow> 'a option" where
  "index xs k = (if 0 \<le> k \<and> k < int (length xs) then Some (xs ! nat k) else None)"


subsection \<open>Match records\<close>

text \<open>
  The match object built by the engine and by \<^verbatim>\<open>AIOpponentService.createAIMatch\<close>.
  \<^verbatim>\<open>participant2_id\<close> is \<^verbatim>\<open>null\<close> (\<open>None\<close>) for an AI match; \<^verbatim>\<open>aiSettings\<close> is present only on
  matches built by the AI service. Fields \<^verbatim>\<open>id\<close> and \<^verbatim>\<open>status\<close> are named \<open>match_id\<close> and
  \<open>match_status\<close>.
\<close>

record match =
  match_id :: string
  participant1_id :: string
  participant2_id :: "string option"
  round_number :: int
  match_type :: string
  match_status :: string
  created_at :: string
  isAI :: bool
  opponent :: json_text
  aiSettings :: "json_text option"

section \<open>RedisService\<close>

text \<open>
  The sources hold two revisions of this service. The model follows the later one, which
  has the locks the engine calls and converts every field of a match to a string.
\<close>

subsection \<open>Texts, keys and the store\<close>

text \<open>\<^verbatim>\<open>Number.prototype.toString\<close> on an integer: its decimal digits.\<close>

definition digit :: "nat \<Rightarrow> char" where
  "digit n = ''0123456789'' ! n"

fun show_nat :: "nat \<Rightarrow> string" where
  "show_nat n = (if n < 10 then [digit n] else show_nat (n div 10) @ [digit (n mod 10)])"

declare show_nat.simps [simp del]

definition show_int :: "int \<Rightarrow> string" where
  "show_int i = (if i < 0 then CHR ''-'' # show_nat (nat (- i)) else show_nat (nat i))"

text \<open>
  A string held in a Redis hash: its characters, or the JSON text of a value. The text of
  a number that need not be an integer is the JSON text of that number.
\<close>

datatype rstring = Chars string | JsonText json_text

definition num_text :: "real \<Rightarrow> rstring" where
  "num_text x = JsonText (JSON_stringify (JNum x))"

type_synonym hash = "string \<rightharpoonup> rstring"

text \<open>The keys \<^verbatim>\<open>queue:round:<n>\<close> and \<^verbatim>\<open>matchlock:round:<n>\<close> the engine builds.\<close>

definition queueKey :: "int \<Rightarrow> string" where
  "queueKey n = ''queue:round:'' @ show_int n"

definition lockKey :: "int \<Rightarrow> string" where
  "lockKey n = ''matchlock:round:'' @ show_int n"

text \<open>
  The state of the Redis server as the services use it.
  \<^item> \<open>queues\<close>: per queue key, the members of the sorted set in score order. A member is the
    JSON text of a queue entry; it is kept as the entry it parses to. Its score is the
    entry's \<^verbatim>\<open>joinedAt\<close>.
  \<^item> \<open>matches\<close>: the hash \<^verbatim>\<open>match:<id>\<close>, by match id; an absent key is the empty hash.
  \<^item> \<open>statuses\<close>: the hash \<^verbatim>\<open>participant:<id>:status\<close>, by participant id.
  \<^item> \<open>stats\<close>: the counters of today's \<^verbatim>\<open>stats:<date>\<close> hash.
  \<^item> \<open>locks\<close>: the string keys set by \<^verbatim>\<open>acquireLock\<close>, with their owner token.
  \<^item> \<open>faults\<close>: for each coming client command, whether it rejects; once the list is
    used up every command succeeds.
  Key expiry is not modelled: \<^verbatim>\<open>expire\<close> is a command that may reject and changes nothing.
\<close>

record store =
  queues :: "string \<Rightarrow> queue_entry list"
  matches :: "string \<Rightarrow> hash"
  statuses :: "string \<Rightarrow> hash"
  stats :: "string \<Rightarrow> int"
  locks :: "string \<rightharpoonup> string"
  faults :: "bool list"

text \<open>One command of the client: whether it succeeds, and the store with that fault used.\<close>

definition command :: "store \<Rightarrow> bool \<times> store" where
  "command s = (case faults s of [] \<Rightarrow> (True, s) | f # fs \<Rightarrow> (\<not> f, s\<lparr>faults := fs\<rparr>))"

text \<open>\<^verbatim>\<open>expire(key, ttl)\<close>, awaited after a write: throws if the command rejects.\<close>

definition expire :: "'a \<Rightarrow> store \<Rightarrow> (error + 'a) \<times> store" where
  "expire result s =
     (case command s of (True, s') \<Rightarrow> (Inr result, s') | (False, s') \<Rightarrow> (Inl StoreError, s'))"

subsection \<open>Participant status\<close>

text \<open>
  \<^verbatim>\<open>setParticipantStatus(participantId, status, data)\<close>: \<^verbatim>\<open>hSet\<close> merges
  \<^verbatim>\<open>{status, lastUpdated, ...data}\<close> into the hash (later fields win), then \<^verbatim>\<open>expire\<close>.
  \<open>now\<close> is \<^verbatim>\<open>Date.now()\<close>.
\<close>

definition setParticipantStatus ::
  "int \<Rightarrow> string \<Rightarrow> string \<Rightarrow> (string \<times> rstring) list \<Rightarrow> store \<Rightarrow> (error + bool) \<times> store" where
  "setParticipantStatus now pid status' data s =
     (case command s of
        (False, s1) \<Rightarrow> (Inl StoreError, s1)
      | (True, s1) \<Rightarrow>
          expire True
            (s1\<lparr>statuses := (statuses s1)
                 (pid := statuses s1 pid ++
                    map_of (rev ([(''status'', Chars status'),
                                  (''lastUpdated'', Chars (show_int now))] @ data)))\<rparr>))"

definition getParticipantStatus :: "string \<Rightarrow> store \<Rightarrow> (error + hash) \<times> store" where
  "getParticipantStatus pid s =
     (case command s of
        (False, s1) \<Rightarrow> (Inl StoreError, s1)
      | (True, s1) \<Rightarrow> (Inr (statuses s1 pid), s1))"

text \<open>The test \<^verbatim>\<open>status?.status === 'matched'\<close> on a status hash.\<close>

definition is_matched :: "hash \<Rightarrow> bool" where
  "is_matched h = (h ''status'' = Some (Chars ''matched''))"

subsection \<open>Queues\<close>

text \<open>
  \<^verbatim>\<open>zAdd\<close> of a member with a score: a member already in the set is moved to its new
  score; the set stays in score order. Among equal scores Redis orders by member text;
  the model puts the new member after the members of equal score.
\<close>

definition zAdd :: "queue_entry \<Rightarrow> queue_entry list \<Rightarrow> queue_entry list" where
  "zAdd e q =
     (let q' = removeAll e q
      in takeWhile (\<lambda>x. joinedAt x \<le> joinedAt e) q' @ [e] @
         dropWhile (\<lambda>x. joinedAt x \<le> joinedAt e) q')"

text \<open>
  \<^verbatim>\<open>addToQueue(queueKey, participantData)\<close>: rejected (\<^verbatim>\<open>false\<close>) when the participant's
  status is \<^verbatim>\<open>matched\<close>; otherwise \<^verbatim>\<open>{...participantData, joinedAt, status: 'waiting'}\<close> is
  added with score \<^verbatim>\<open>Date.now()\<close>.
\<close>

definition addToQueue ::
  "int \<Rightarrow> string \<Rightarrow> 'a participant_data_scheme \<Rightarrow> store \<Rightarrow> (error + bool) \<times> store" where
  "addToQueue now key participantData s =
     (case getParticipantStatus (participantId participantData) s of
        (Inl e, s1) \<Rightarrow> (Inl e, s1)
      | (Inr status', s1) \<Rightarrow>
          if is_matched status' then (Inr False, s1)
          else
            let queueEntry =
                  participant_data.extend (participant_data.truncate participantData)
                    (queue_entry.fields now ''waiting'')
            in case command s1 of
                 (False, s2) \<Rightarrow> (Inl StoreError, s2)
               | (True, s2) \<Rightarrow>
                   expire True
                     (s2\<lparr>queues := (queues s2)(key := zAdd queueEntry (queues s2 key))\<rparr>))"

text \<open>
  \<^verbatim>\<open>removeFromQueue(queueKey, participantId)\<close>: reads the whole set, removes the first
  member of that participant (\<^verbatim>\<open>zRem\<close>) and stops.
\<close>

definition removeFromQueue :: "string \<Rightarrow> string \<Rightarrow> store \<Rightarrow> (error + bool) \<times> store" where
  "removeFromQueue key pid s =
     (case command s of
        (False, s1) \<Rightarrow> (Inl StoreError, s1)
      | (True, s1) \<Rightarrow>
          (case find (\<lambda>data. participantId data = pid) (queues s1 key) of
             None \<Rightarrow> (Inr False, s1)
           | Some entry \<Rightarrow>
               (case command s1 of
                  (False, s2) \<Rightarrow> (Inl StoreError, s2)
                | (True, s2) \<Rightarrow>
                    (Inr True,
                     s2\<lparr>queues := (queues s2)(key := removeAll entry (queues s2 key))\<rparr>))))"

text \<open>
  \<^verbatim>\<open>getQueueEntries(queueKey, excludeParticipantId = null)\<close>: the filter is applied only
  when the second argument is truthy.
\<close>

definition getQueueEntries ::
  "string \<Rightarrow> string option \<Rightarrow> store \<Rightarrow> (error + queue_entry list) \<times> store" where
  "getQueueEntries key excludeParticipantId s =
     (case command s of
        (False, s1) \<Rightarrow> (Inl StoreError, s1)
      | (True, s1) \<Rightarrow>
          let parsedEntries = queues s1 key
          in if truthy_str excludeParticipantId
             then (Inr (filter (\<lambda>entry. Some (participantId entry) \<noteq> excludeParticipantId)
                          parsedEntries), s1)
             else (Inr parsedEntries, s1))"

text \<open>\<^verbatim>\<open>getQueuePosition(queueKey, participantId)\<close>: 1-based, \<open>-1\<close> when not found.\<close>

fun position_from :: "int \<Rightarrow> string \<Rightarrow> queue_entry list \<Rightarrow> int" where
  "position_from i pid [] = -1"
| "position_from i pid (data # rest) =
     (if participantId data = pid then i + 1 else position_from (i + 1) pid rest)"

definition getQueuePosition :: "string \<Rightarrow> string \<Rightarrow> store \<Rightarrow> (error + int) \<times> store" where
  "getQueuePosition key pid s =
     (case command s of
        (False, s1) \<Rightarrow> (Inl StoreError, s1)
      | (True, s1) \<Rightarrow> (Inr (position_from 0 pid (queues s1 key)), s1))"

subsection \<open>Matches\<close>

text \<open>The value of a property of \<^verbatim>\<open>matchData\<close>, as \<^verbatim>\<open>Object.entries\<close> yields it.\<close>

datatype field_value =
    VUndefined
  | VNull
  | VBool bool
  | VNum int
  | VStr rstring
  | VObj jsval

text \<open>The loop body of \<^verbatim>\<open>createMatch\<close>: every value becomes a string.\<close>

fun to_redis :: "field_value \<Rightarrow> rstring" where
  "to_redis VNull = Chars []"
| "to_redis VUndefined = Chars []"
| "to_redis (VObj v) = JsonText (JSON_stringify v)"
| "to_redis (VBool b) = Chars (if b then ''true'' else ''false'')"
| "to_redis (VNum n) = Chars (show_int n)"
| "to_redis (VStr t) = t"

text \<open>
  \<^verbatim>\<open>createMatch(matchId, matchData)\<close>: \<^verbatim>\<open>redisData\<close> is filled key by key, then \<^verbatim>\<open>hSet\<close>
  merges \<^verbatim>\<open>{...redisData, createdAt, status: 'active'}\<close> into the hash, then \<^verbatim>\<open>expire\<close>.
\<close>

definition createMatch ::
  "int \<Rightarrow> string \<Rightarrow> (string \<times> field_value) list \<Rightarrow> store \<Rightarrow> (error + bool) \<times> store" where
  "createMatch now matchId' matchData s =
     (let redisData = fold (\<lambda>(key, value) r. r(key \<mapsto> to_redis value)) matchData Map.empty
      in case command s of
           (False, s1) \<Rightarrow> (Inl StoreError, s1)
         | (True, s1) \<Rightarrow>
             expire True
               (s1\<lparr>matches := (matches s1)
                    (matchId' := matches s1 matchId' ++ redisData ++
                       [''createdAt'' \<mapsto> Chars (show_int now),
                        ''status'' \<mapsto> Chars ''active''])\<rparr>))"

definition getMatch :: "string \<Rightarrow> store \<Rightarrow> (error + hash) \<times> store" where
  "getMatch matchId' s =
     (case command s of
        (False, s1) \<Rightarrow> (Inl StoreError, s1)
      | (True, s1) \<Rightarrow> (Inr (matches s1 matchId'), s1))"

text \<open>\<^verbatim>\<open>Object.entries\<close> of a match record, in the order of the object literal.\<close>

definition entries :: "match \<Rightarrow> (string \<times> field_value) list" where
  "entries m =
     [(''id'', VStr (Chars (match_id m))),
      (''participant1_id'', VStr (Chars (participant1_id m))),
      (''participant2_id'',
         case participant2_id m of None \<Rightarrow> VNull | Some p \<Rightarrow> VStr (Chars p)),
      (''round_number'', VNum (round_number m)),
      (''match_type'', VStr (Chars (match_type m))),
      (''status'', VStr (Chars (match_status m))),
      (''created_at'', VStr (Chars (created_at m))),
      (''isAI'', VBool (isAI m)),
      (''opponent'', VStr (JsonText (opponent m)))]
     @ (case aiSettings m of None \<Rightarrow> [] | Some t \<Rightarrow> [(''aiSettings'', VStr (JsonText t))])"

text \<open>
  The store round trip of one field: what \<^verbatim>\<open>getMatch\<close> returns for property \<open>k\<close> right
  after \<^verbatim>\<open>createMatch\<close>, as a value of the kind \<^verbatim>\<open>matchData\<close> holds (\<open>None\<close> if either call
  throws or the property is absent).
\<close>

definition roundtrip ::
  "int \<Rightarrow> string \<Rightarrow> (string \<times> field_value) list \<Rightarrow> store \<Rightarrow> string \<Rightarrow> field_value option" where
  "roundtrip t matchId' matchData s k =
     (case createMatch t matchId' matchData s of
        (Inl e, s1) \<Rightarrow> None
      | (Inr ok, s1) \<Rightarrow>
          (case getMatch matchId' s1 of
             (Inl e, s2) \<Rightarrow> None
           | (Inr h, s2) \<Rightarrow> map_option VStr (h k)))"

subsection \<open>Statistics and locks\<close>

definition incrementMatchStats :: "string \<Rightarrow> store \<Rightarrow> (error + bool) \<times> store" where
  "incrementMatchStats statType s =
     (case command s of
        (False, s1) \<Rightarrow> (Inl StoreError, s1)
      | (True, s1) \<Rightarrow>
          expire True (s1\<lparr>stats := (stats s1)(statType := stats s1 statType + 1)\<rparr>))"

text \<open>
  \<^verbatim>\<open>acquireLock\<close>: \<^verbatim>\<open>SET key value NX PX\<close>; a rejected command is caught and gives \<^verbatim>\<open>false\<close>.
  The expiry of the lock after its timeout is not modelled.
\<close>

definition acquireLock :: "string \<Rightarrow> string \<Rightarrow> store \<Rightarrow> bool \<times> store" where
  "acquireLock key lockValue s =
     (case command s of
        (False, s1) \<Rightarrow> (False, s1)
      | (True, s1) \<Rightarrow>
          (case locks s1 key of
             None \<Rightarrow> (True, s1\<lparr>locks := (locks s1)(key \<mapsto> lockValue)\<rparr>)
           | Some owner \<Rightarrow> (False, s1)))"

text \<open>\<^verbatim>\<open>releaseLock\<close>: the script deletes the key only if it holds \<open>lockValue\<close>.\<close>

definition releaseLock :: "string \<Rightarrow> string \<Rightarrow> store \<Rightarrow> bool \<times> store" where
  "releaseLock key lockValue s =
     (case command s of
        (False, s1) \<Rightarrow> (False, s1)
      | (True, s1) \<Rightarrow>
          if locks s1 key = Some lockValue
          then (True, s1\<lparr>locks := (locks s1)(key := None)\<rparr>)
          else (False, s1))"

section \<open>AIOpponentService\<close>

text \<open>The roster; \<^verbatim>\<open>id\<close>, \<^verbatim>\<open>name\<close> and \<^verbatim>\<open>skillLevel\<close> carry the prefix \<open>ai_\<close>.\<close>

record ai_opponent =
  ai_id :: string
  ai_name :: string
  ai_skillLevel :: real
  personality :: string
  responsePattern :: string
  description :: string

definition aiOpponents :: "ai_opponent list" where
  "aiOpponents =
    [\<lparr>ai_id = ''ai_1'', ai_name = ''Bot Alex'', ai_skillLevel = 7.2, personality = ''competitive'',
      responsePattern = ''fast'', description = ''Quick-thinking competitive strategist''\<rparr>,
     \<lparr>ai_id = ''ai_2'', ai_name = ''Bot Pat'', ai_skillLevel = 6.8, personality = ''collaborative'',
      responsePattern = ''medium'', description = ''Balanced and methodical approach''\<rparr>,
     \<lparr>ai_id = ''ai_3'', ai_name = ''Bot Charlie'', ai_skillLevel = 7.5, personality = ''analytical'',
      responsePattern = ''slow'', description = ''Deep analytical thinker''\<rparr>,
     \<lparr>ai_id = ''ai_4'', ai_name = ''Bot Riley'', ai_skillLevel = 6.5, personality = ''competitive'',
      responsePattern = ''medium'', description = ''Aggressive competitive player''\<rparr>,
     \<lparr>ai_id = ''ai_5'', ai_name = ''Bot Morgan'', ai_skillLevel = 7.8, personality = ''analytical'',
      responsePattern = ''fast'', description = ''Lightning-fast analytical mind''\<rparr>,
     \<lparr>ai_id = ''ai_6'', ai_name = ''Bot Casey'', ai_skillLevel = 6.0, personality = ''collaborative'',
      responsePattern = ''slow'', description = ''Thoughtful collaborative partner''\<rparr>,
     \<lparr>ai_id = ''ai_7'', ai_name = ''Bot Jordan'', ai_skillLevel = 8.0, personality = ''competitive'',
      responsePattern = ''fast'', description = ''Elite competitive challenger''\<rparr>,
     \<lparr>ai_id = ''ai_8'', ai_name = ''Bot Sam'', ai_skillLevel = 5.5, personality = ''analytical'',
      responsePattern = ''medium'', description = ''Careful analytical approach''\<rparr>]"

text \<open>The object \<^verbatim>\<open>selectOpponent\<close> returns: the roster entry spread, plus two fields.\<close>

record selected_opponent = ai_opponent +
  actualSkillLevel :: real
  matchId :: string

text \<open>
  \<^verbatim>\<open>randomizeSkillLevel(baseSkillLevel)\<close>. The value of \<^verbatim>\<open>Math.random()\<close> is the first
  argument (a number in \<open>[0, 1)\<close>), here and in every function that draws one.
\<close>

definition randomizeSkillLevel :: "real \<Rightarrow> real \<Rightarrow> real" where
  "randomizeSkillLevel rnd baseSkillLevel =
     (let variation = (rnd - 0.5) * 0.6
      in max 1 (min 10 (baseSkillLevel + variation)))"

text \<open>
  \<^verbatim>\<open>selectOpponent(participantSkillLevel, skillThreshold)\<close>. \<open>rnd_pick\<close> is the draw that
  indexes the suitable opponents, \<open>rnd_skill\<close> the draw of \<^verbatim>\<open>randomizeSkillLevel\<close>, \<open>uuid\<close>
  the value of \<^verbatim>\<open>uuidv4()\<close>. Reading \<^verbatim>\<open>skillLevel\<close> of an \<^verbatim>\<open>undefined\<close> selection is a
  TypeError.
\<close>

definition selectOpponent ::
  "real \<Rightarrow> real \<Rightarrow> string \<Rightarrow> real \<Rightarrow> real \<Rightarrow> error + selected_opponent" where
  "selectOpponent rnd_pick rnd_skill uuid participantSkillLevel skillThreshold =
     (let suitableOpponents =
            filter (\<lambda>ai. \<bar>ai_skillLevel ai - participantSkillLevel\<bar> \<le> skillThreshold) aiOpponents;
          selectedOpponent =
            (if length suitableOpponents > 0
             then index suitableOpponents \<lfloor>rnd_pick * real (length suitableOpponents)\<rfloor>
             else reduce (closer ai_skillLevel participantSkillLevel) aiOpponents)
      in case selectedOpponent of
           None \<Rightarrow> Inl TypeError
         | Some sel \<Rightarrow>
             Inr (ai_opponent.extend sel
                   (selected_opponent.fields
                      (randomizeSkillLevel rnd_skill (ai_skillLevel sel)) uuid)))"

text \<open>\<^verbatim>\<open>getResponseDelay(responsePattern)\<close>: the table, \<^verbatim>\<open>medium\<close> for an unknown key.\<close>

record response_delay =
  delay_min :: real
  delay_max :: real
  average :: real

definition getResponseDelay :: "string \<Rightarrow> response_delay" where
  "getResponseDelay rp =
     (if rp = ''fast'' then \<lparr>delay_min = 800, delay_max = 2000, average = 1200\<rparr>
      else if rp = ''slow'' then \<lparr>delay_min = 4000, delay_max = 7000, average = 5500\<rparr>
      else \<lparr>delay_min = 2000, delay_max = 4000, average = 3000\<rparr>)"

text \<open>
  \<^verbatim>\<open>getAccuracyVariation(personality)\<close>: \<^verbatim>\<open>collaborative\<close> for an unknown key. A flag that an
  entry does not have is \<open>None\<close> (\<^verbatim>\<open>undefined\<close>, falsy).
\<close>

record accuracy_variation =
  baseAccuracy :: real
  variance :: real
  improvesOverTime :: "bool option"
  rushesEasy :: "bool option"
  consistent :: "bool option"
  slowStart :: "bool option"

definition getAccuracyVariation :: "string \<Rightarrow> accuracy_variation" where
  "getAccuracyVariation p =
     (if p = ''competitive''
      then \<lparr>baseAccuracy = 0.85, variance = 0.1, improvesOverTime = Some True,
            rushesEasy = Some True, consistent = None, slowStart = None\<rparr>
      else if p = ''analytical''
      then \<lparr>baseAccuracy = 0.88, variance = 0.05, improvesOverTime = Some True,
            rushesEasy = None, consistent = None, slowStart = Some True\<rparr>
      else \<lparr>baseAccuracy = 0.80, variance = 0.08, improvesOverTime = Some False,
            rushesEasy = None, consistent = Some True, slowStart = None\<rparr>)"

text \<open>\<^verbatim>\<open>getBehaviorPattern(personality)\<close>: \<^verbatim>\<open>collaborative\<close> for an unknown key.\<close>

record behavior_pattern =
  speedIncreasesWithScore :: "bool option"
  takesRisks :: "bool option"
  adaptToOpponent :: "bool option"
  celebration :: "string option"

definition getBehaviorPattern :: "string \<Rightarrow> behavior_pattern" where
  "getBehaviorPattern p =
     (if p = ''competitive''
      then \<lparr>speedIncreasesWithScore = Some True, takesRisks = Some True,
            adaptToOpponent = Some True, celebration = Some ''aggressive''\<rparr>
      else if p = ''analytical''
      then \<lparr>speedIncreasesWithScore = Some False, takesRisks = Some False,
            adaptToOpponent = Some True, celebration = Some ''analytical''\<rparr>
      else \<lparr>speedIncreasesWithScore = Some False, takesRisks = Some False,
            adaptToOpponent = Some False, celebration = Some ''modest''\<rparr>)"








section \<open>MatchmakingEngine\<close>

subsection \<open>Environment and engine state\<close>

text \<open>
  What the engine reads from outside during one operation.
  \<^item> \<open>now\<close>, \<open>isoNow\<close>: \<^verbatim>\<open>Date.now()\<close> and \<^verbatim>\<open>new Date().toISOString()\<close>; the clock does not
    advance within one operation.
  \<^item> \<open>uuid_human\<close>, \<open>uuid_opponent\<close>, \<open>uuid_ai\<close>, \<open>uuid_fallback\<close>: the values of \<^verbatim>\<open>uuidv4()\<close> in
    \<^verbatim>\<open>createHumanMatch\<close>, \<^verbatim>\<open>selectOpponent\<close>, \<^verbatim>\<open>AIOpponentService.createAIMatch\<close> and the
    fallback of the engine's \<^verbatim>\<open>createAIMatch\<close>.
  \<^item> \<open>rnd_pick\<close>, \<open>rnd_skill\<close>: the draws of \<^verbatim>\<open>selectOpponent\<close>.
  \<^item> \<open>skillMatchingThreshold\<close>, \<open>humanSearchTimeoutMs\<close>: \<^verbatim>\<open>config.matchmaking\<close>.
  \<^item> \<open>getActiveMatchForParticipant\<close>, \<open>getParticipant\<close>: the answers of \<^verbatim>\<open>DatabaseService\<close>
    (the id of an active match, if any; the participant row or \<^verbatim>\<open>null\<close>).
    \<^verbatim>\<open>createTournamentMatch\<close> is called inside its own \<^verbatim>\<open>try\<close>/\<^verbatim>\<open>catch\<close> and its result is
    dropped, so it does not appear.
  \<^item> \<open>getPlayerDisplayName\<close>, \<open>getBotName\<close>: the functions of \<^verbatim>\<open>utils/nameUtils.js\<close>.
  \<^item> \<open>interleave\<close>: what other tasks write to the store while \<^verbatim>\<open>startMatchmaking\<close> is
    suspended after its status write (the identity when nothing else runs).
\<close>

record env =
  now :: int
  isoNow :: string
  uuid_human :: string
  uuid_opponent :: string
  uuid_ai :: string
  uuid_fallback :: string
  rnd_pick :: real
  rnd_skill :: real
  skillMatchingThreshold :: real
  humanSearchTimeoutMs :: int
  getActiveMatchForParticipant :: "string \<Rightarrow> int \<Rightarrow> error + string option"
  getParticipant :: "string \<Rightarrow> error + jsval"
  getPlayerDisplayName :: "jsval \<Rightarrow> string"
  getBotName :: "string \<Rightarrow> string"
  interleave :: "store \<Rightarrow> store"

text \<open>
  The engine's own state: the two maps of the class, the callback, and the timers it has
  handed to the event loop. A fallback timer is kept as the participant data its closure
  holds (\<open>matchTimeouts\<close>), a running scanner likewise (\<open>intervals\<close>). \<open>notified\<close> lists the
  matches passed to the \<^verbatim>\<open>onMatchFound\<close> callback, oldest first.
\<close>

record active_search =
  startTime :: int
  search_round :: int
  searchAttempts :: nat

record engine =
  activeSearches :: "string \<rightharpoonup> active_search"
  matchTimeouts :: "string \<rightharpoonup> participant_data"
  intervals :: "participant_data list"
  onMatchFound :: bool
  notified :: "match list"

text \<open>\<^verbatim>\<open>if (this.onMatchFound) this.onMatchFound(match)\<close>.\<close>

definition notify :: "match \<Rightarrow> engine \<Rightarrow> engine" where
  "notify m eng = (if onMatchFound eng then eng\<lparr>notified := notified eng @ [m]\<rparr> else eng)"

text \<open>\<^verbatim>\<open>s.slice(-4)\<close>: the last four characters.\<close>

definition slice_last4 :: "string \<Rightarrow> string" where
  "slice_last4 s = drop (length s - 4) s"

text \<open>Truthiness of a value read from the database (\<^verbatim>\<open>participant2Info || {...}\<close>).\<close>

fun js_truthy :: "jsval \<Rightarrow> bool" where
  "js_truthy JUndefined = False"
| "js_truthy JNull = False"
| "js_truthy (JBool b) = b"
| "js_truthy (JNum x) = (x \<noteq> 0)"
| "js_truthy (JStr s) = (s \<noteq> [])"
| "js_truthy (JObj kvs) = True"

subsection \<open>Queue operations of the engine\<close>

text \<open>\<^verbatim>\<open>cleanupParticipantQueue\<close>: errors of \<^verbatim>\<open>removeFromQueue\<close> are caught and logged.\<close>

definition cleanupParticipantQueue :: "string \<Rightarrow> int \<Rightarrow> store \<Rightarrow> store" where
  "cleanupParticipantQueue pid roundNumber' s = snd (removeFromQueue (queueKey roundNumber') pid s)"

text \<open>
  \<^verbatim>\<open>joinQueue(participantData)\<close>: \<open>None\<close> is the \<^verbatim>\<open>null\<close> returned when the participant is
  already matched, in Redis or in the database. The result of \<^verbatim>\<open>addToQueue\<close> is not read.
\<close>

definition joinQueue ::
  "env \<Rightarrow> participant_data \<Rightarrow> store \<Rightarrow> (error + queue_entry option) \<times> store" where
  "joinQueue env participantData s =
     (let pid = participantId participantData in
      case getParticipantStatus pid s of
        (Inl e, s1) \<Rightarrow> (Inl e, s1)
      | (Inr status', s1) \<Rightarrow>
          if is_matched status' then (Inr None, s1)
          else
            (case getActiveMatchForParticipant env pid (roundNumber participantData) of
               Inl e \<Rightarrow> (Inl e, s1)
             | Inr (Some existingMatch) \<Rightarrow> (Inr None, s1)
             | Inr None \<Rightarrow>
                 let queueEntry =
                       \<lparr>participantId = pid,
                        participantName =
                          (if truthy_str (participantName participantData)
                           then participantName participantData
                           else Some (getPlayerDisplayName env (JObj [(''id'', JStr pid)]))),
                        roundNumber = roundNumber participantData,
                        skillLevel =
                          (if skillLevel participantData \<noteq> 0 then skillLevel participantData
                           else 7),
                        treatmentGroup =
                          (if treatmentGroup participantData \<noteq> []
                           then treatmentGroup participantData else ''control''),
                        joinedAt = now env,
                        entry_status = ''waiting''\<rparr>
                 in case addToQueue (now env) (queueKey (roundNumber participantData))
                           queueEntry s1 of
                      (Inl e, s2) \<Rightarrow> (Inl e, s2)
                    | (Inr added, s2) \<Rightarrow>
                        (case incrementMatchStats ''queue_joins'' s2 of
                           (Inl e, s3) \<Rightarrow> (Inl e, s3)
                         | (Inr ok, s3) \<Rightarrow> (Inr (Some queueEntry), s3))))"

subsection \<open>Creating matches\<close>

text \<open>
  \<^verbatim>\<open>Promise.all\<close> of two store operations: both run (the second also when the first has
  rejected); the result rejects with the first error. The model runs them one after the
  other.
\<close>

definition both ::
  "(store \<Rightarrow> (error + 'a) \<times> store) \<Rightarrow> (store \<Rightarrow> (error + 'a) \<times> store) \<Rightarrow> store \<Rightarrow>
     (error + unit) \<times> store" where
  "both f g s =
     (case f s of
        (r1, s1) \<Rightarrow>
          (case g s1 of
             (r2, s2) \<Rightarrow>
               (case r1 of
                  Inl e \<Rightarrow> (Inl e, s2)
                | Inr a \<Rightarrow> (case r2 of Inl e \<Rightarrow> (Inl e, s2) | Inr b \<Rightarrow> (Inr (), s2)))))"

text \<open>
  \<^verbatim>\<open>createHumanMatch(participant1Data, participant2Data)\<close>. The self-match test comes first
  and throws before anything is written.
\<close>

definition createHumanMatch ::
  "env \<Rightarrow> participant_data \<Rightarrow> 'a participant_data_scheme \<Rightarrow> store \<Rightarrow> (error + match) \<times> store" where
  "createHumanMatch env participant1Data participant2Data s =
     (let matchId' = uuid_human env;
          roundNumber' = roundNumber participant1Data
      in if participantId participant1Data = participantId participant2Data
         then (Inl SelfMatch, s)
         else
           let participant2Name =
                 (if truthy_str (participantName participant2Data)
                  then the (participantName participant2Data)
                  else (case getParticipant env (participantId participant2Data) of
                          Inr participant2Info \<Rightarrow>
                            getPlayerDisplayName env
                              (if js_truthy participant2Info then participant2Info
                               else JObj [(''id'', JStr (participantId participant2Data))])
                        | Inl dbError \<Rightarrow>
                            getPlayerDisplayName env
                              (JObj [(''id'', JStr (participantId participant2Data))])));
               matchData =
                 \<lparr>match_id = matchId',
                  participant1_id = participantId participant1Data,
                  participant2_id = Some (participantId participant2Data),
                  round_number = roundNumber',
                  match_type = ''live'',
                  match_status = ''active'',
                  created_at = isoNow env,
                  isAI = False,
                  opponent = JSON_stringify (JObj
                    [(''name'', JStr participant2Name),
                     (''participant_id'', JStr (participantId participant2Data)),
                     (''skill_level'', JNum (skillLevel participant2Data))]),
                  aiSettings = None\<rparr>
           in case createMatch (now env) matchId' (entries matchData) s of
                (Inl e, s1) \<Rightarrow> (Inl e, s1)
              | (Inr ok, s1) \<Rightarrow>
                  (case both
                          (setParticipantStatus (now env) (participantId participant1Data)
                             ''matched'' [(''matchId'', Chars matchId')])
                          (setParticipantStatus (now env) (participantId participant2Data)
                             ''matched'' [(''matchId'', Chars matchId')]) s1 of
                     (Inl e, s2) \<Rightarrow> (Inl e, s2)
                   | (Inr u, s2) \<Rightarrow>
                       (case both
                               (removeFromQueue (queueKey roundNumber')
                                  (participantId participant1Data))
                               (removeFromQueue (queueKey roundNumber')
                                  (participantId participant2Data)) s2 of
                          (Inl e, s3) \<Rightarrow> (Inl e, s3)
                        | (Inr u', s3) \<Rightarrow>
                            (case incrementMatchStats ''human_matches'' s3 of
                               (Inl e, s4) \<Rightarrow> (Inl e, s4)
                             | (Inr ok', s4) \<Rightarrow> (Inr matchData, s4)))))"

text \<open>
  \<^verbatim>\<open>AIOpponentService.createAIMatch(participantId, roundNumber, participantSkillLevel)\<close>;
  \<^verbatim>\<open>selectOpponent\<close> is called with its default threshold 1.5.
\<close>

definition json_of_delay :: "response_delay \<Rightarrow> jsval" where
  "json_of_delay rd =
     JObj [(''min'', JNum (delay_min rd)), (''max'', JNum (delay_max rd)),
           (''average'', JNum (average rd))]"

definition json_flag :: "string \<Rightarrow> bool option \<Rightarrow> (string \<times> jsval) list" where
  "json_flag k v = (case v of None \<Rightarrow> [] | Some b \<Rightarrow> [(k, JBool b)])"

definition json_of_accuracy :: "accuracy_variation \<Rightarrow> jsval" where
  "json_of_accuracy av =
     JObj ([(''baseAccuracy'', JNum (baseAccuracy av)), (''variance'', JNum (variance av))]
           @ json_flag ''improvesOverTime'' (improvesOverTime av)
           @ json_flag ''rushesEasy'' (rushesEasy av)
           @ json_flag ''consistent'' (consistent av)
           @ json_flag ''slowStart'' (slowStart av))"

definition json_of_behavior :: "behavior_pattern \<Rightarrow> jsval" where
  "json_of_behavior bp =
     JObj (json_flag ''speedIncreasesWithScore'' (speedIncreasesWithScore bp)
           @ json_flag ''takesRisks'' (takesRisks bp)
           @ json_flag ''adaptToOpponent'' (adaptToOpponent bp)
           @ (case celebration bp of None \<Rightarrow> [] | Some c \<Rightarrow> [(''celebration'', JStr c)]))"

definition ai_createAIMatch :: "env \<Rightarrow> string \<Rightarrow> int \<Rightarrow> real \<Rightarrow> error + match" where
  "ai_createAIMatch env pid roundNumber' participantSkillLevel =
     (case selectOpponent (rnd_pick env) (rnd_skill env) (uuid_opponent env)
             participantSkillLevel 1.5 of
        Inl e \<Rightarrow> Inl e
      | Inr aiOpponent \<Rightarrow>
          Inr \<lparr>match_id = uuid_ai env,
               participant1_id = pid,
               participant2_id = None,
               round_number = roundNumber',
               match_type = ''human_vs_ai'',
               match_status = ''active'',
               created_at = isoNow env,
               isAI = True,
               opponent = JSON_stringify (JObj
                 [(''id'', JStr (ai_id aiOpponent)),
                  (''name'', JStr (ai_name aiOpponent)),
                  (''participant_id'', JStr (ai_id aiOpponent)),
                  (''skill_level'', JNum (actualSkillLevel aiOpponent)),
                  (''personality'', JStr (personality aiOpponent)),
                  (''responsePattern'', JStr (responsePattern aiOpponent)),
                  (''description'', JStr (description aiOpponent))]),
               aiSettings = Some (JSON_stringify (JObj
                 [(''responseDelayMs'', json_of_delay (getResponseDelay (responsePattern aiOpponent))),
                  (''accuracyVariation'',
                     json_of_accuracy (getAccuracyVariation (personality aiOpponent))),
                  (''behaviorPattern'',
                     json_of_behavior (getBehaviorPattern (personality aiOpponent)))]))\<rparr>)"

text \<open>The match synthesized in the \<^verbatim>\<open>catch\<close> block of the engine's \<^verbatim>\<open>createAIMatch\<close>.\<close>

definition fallbackMatch :: "env \<Rightarrow> participant_data \<Rightarrow> match" where
  "fallbackMatch env participantData =
     (let fallbackOpponentId = ''AI-FALLBACK-'' @ slice_last4 (participantId participantData)
      in \<lparr>match_id = uuid_fallback env,
          participant1_id = participantId participantData,
          participant2_id = None,
          round_number = roundNumber participantData,
          match_type = ''live'',
          match_status = ''active'',
          created_at = isoNow env,
          isAI = True,
          opponent = JSON_stringify (JObj
            [(''id'', JStr ''ai_fallback''),
             (''name'', JStr (getBotName env fallbackOpponentId)),
             (''participant_id'', JStr fallbackOpponentId),
             (''skill_level'', JNum 7),
             (''personality'', JStr ''competitive''),
             (''responsePattern'', JStr ''medium'')]),
          aiSettings = None\<rparr>)"

text \<open>
  The engine's \<^verbatim>\<open>createAIMatch(participantData)\<close>: it always returns a match. Any error of
  the \<^verbatim>\<open>try\<close> block ends in the fallback match, with the store as the failed step left it.
  Clearing the fallback timer removes it from \<open>matchTimeouts\<close>.
\<close>

definition createAIMatch ::
  "env \<Rightarrow> participant_data \<Rightarrow> engine \<times> store \<Rightarrow> match \<times> engine \<times> store" where
  "createAIMatch env participantData es =
     (let eng = fst es; s = snd es;
          pid = participantId participantData;
          s1 = cleanupParticipantQueue pid (roundNumber participantData) s;
          eng1 = eng\<lparr>matchTimeouts := (matchTimeouts eng)(pid := None)\<rparr>
      in case ai_createAIMatch env pid (roundNumber participantData) (skillLevel participantData) of
           Inl e \<Rightarrow> (fallbackMatch env participantData, eng1, s1)
         | Inr aiMatchData \<Rightarrow>
             (case createMatch (now env) (match_id aiMatchData) (entries aiMatchData) s1 of
                (Inl e, s2) \<Rightarrow> (fallbackMatch env participantData, eng1, s2)
              | (Inr ok, s2) \<Rightarrow>
                  (case setParticipantStatus (now env) pid ''matched''
                          [(''matchId'', Chars (match_id aiMatchData)),
                           (''opponentType'', Chars ''ai'')] s2 of
                     (Inl e, s3) \<Rightarrow> (fallbackMatch env participantData, eng1, s3)
                   | (Inr ok', s3) \<Rightarrow>
                       (case incrementMatchStats ''ai_matches'' s3 of
                          (Inl e, s4) \<Rightarrow> (fallbackMatch env participantData, eng1, s4)
                        | (Inr ok'', s4) \<Rightarrow> (aiMatchData, eng1, s4)))))"

subsection \<open>Searching\<close>

text \<open>
  The body of \<^verbatim>\<open>findImmediateMatch\<close> run while the lock is held, up to the point where the
  \<^verbatim>\<open>finally\<close> block releases it: \<open>Inr None\<close> when no match is made, \<open>Inl\<close> when a step throws.
\<close>

definition underLock ::
  "env \<Rightarrow> participant_data \<Rightarrow> string \<Rightarrow> store \<Rightarrow> (error + match option) \<times> store" where
  "underLock env participantData lockValue s =
     (let pid = participantId participantData;
          key = queueKey (roundNumber participantData)
      in case getQueueEntries key None s of
           (Inl e, s1) \<Rightarrow> (Inl e, s1)
         | (Inr allParticipants, s1) \<Rightarrow>
             (case getQueueEntries key (Some pid) s1 of
                (Inl e, s2) \<Rightarrow> (Inl e, s2)
              | (Inr waitingParticipants, s2) \<Rightarrow>
                  if length waitingParticipants = 0 then (Inr None, s2)
                  else
                    (case findBestSkillMatch (skillMatchingThreshold env)
                            (skillLevel participantData) waitingParticipants of
                       None \<Rightarrow> (Inr None, s2)
                     | Some bestMatch \<Rightarrow>
                         (case createHumanMatch env participantData bestMatch s2 of
                            (Inl e, s3) \<Rightarrow> (Inl e, s3)
                          | (Inr m, s3) \<Rightarrow>
                              (Inr (Some m),
                               snd (releaseLock (lockKey (roundNumber participantData))
                                      lockValue s3))))))"

text \<open>
  \<^verbatim>\<open>findImmediateMatch(participantData)\<close>: \<open>None\<close> is \<^verbatim>\<open>null\<close>. The lock is released in the
  \<^verbatim>\<open>finally\<close> block whatever happened; an error is caught and gives \<^verbatim>\<open>null\<close>.
\<close>

definition findImmediateMatch ::
  "env \<Rightarrow> participant_data \<Rightarrow> store \<Rightarrow> match option \<times> store" where
  "findImmediateMatch env participantData s =
     (let lockValue = participantId participantData @ ''-'' @ show_int (now env);
          key = lockKey (roundNumber participantData)
      in case acquireLock key lockValue s of
           (False, s1) \<Rightarrow> (None, s1)
         | (True, s1) \<Rightarrow>
             (case underLock env participantData lockValue s1 of
                (r, s2) \<Rightarrow>
                  (case r of Inl e \<Rightarrow> None | Inr m \<Rightarrow> m, snd (releaseLock key lockValue s2))))"

text \<open>\<^verbatim>\<open>startContinuousSearch\<close> and \<^verbatim>\<open>setAIFallbackTimeout\<close> hand a timer to the event loop.\<close>

definition startContinuousSearch :: "participant_data \<Rightarrow> engine \<Rightarrow> engine" where
  "startContinuousSearch participantData eng =
     eng\<lparr>intervals := intervals eng @ [participantData]\<rparr>"

definition setAIFallbackTimeout :: "participant_data \<Rightarrow> engine \<Rightarrow> engine" where
  "setAIFallbackTimeout participantData eng =
     eng\<lparr>matchTimeouts := (matchTimeouts eng)(participantId participantData \<mapsto> participantData)\<rparr>"

subsection \<open>startMatchmaking\<close>

text \<open>
  What \<^verbatim>\<open>startMatchmaking\<close> returns: \<^verbatim>\<open>{status: 'already_searching'}\<close>,
  \<^verbatim>\<open>{status: 'searching', queuePosition, estimatedWaitTime}\<close> or a match.
\<close>

datatype start_result =
    AlreadySearching
  | Searching int real
  | Matched match

text \<open>The metadata \<^verbatim>\<open>{roundNumber, skillLevel, treatmentGroup}\<close> written with the status.\<close>

definition searching_metadata :: "participant_data \<Rightarrow> (string \<times> rstring) list" where
  "searching_metadata participantData =
     [(''roundNumber'', Chars (show_int (roundNumber participantData))),
      (''skillLevel'', num_text (skillLevel participantData)),
      (''treatmentGroup'', Chars (treatmentGroup participantData))]"

text \<open>
  The \<^verbatim>\<open>try\<close> block of \<^verbatim>\<open>startMatchmaking\<close>, after the active-search record is set. The value
  of \<^verbatim>\<open>joinQueue\<close> is awaited and dropped.
\<close>

definition searchBody ::
  "env \<Rightarrow> participant_data \<Rightarrow> engine \<times> store \<Rightarrow> (error + start_result) \<times> engine \<times> store" where
  "searchBody env participantData es =
     (let eng = fst es; s = snd es;
          pid = participantId participantData;
          roundNumber' = roundNumber participantData
      in case setParticipantStatus (now env) pid ''searching''
                (searching_metadata participantData) s of
           (Inl e, s1) \<Rightarrow> (Inl e, eng, s1)
         | (Inr ok, s1) \<Rightarrow>
             (let s2 = cleanupParticipantQueue pid roundNumber' (interleave env s1)
              in case joinQueue env participantData s2 of
                   (Inl e, s3) \<Rightarrow> (Inl e, eng, s3)
                 | (Inr joined, s3) \<Rightarrow>
                     (case findImmediateMatch env participantData s3 of
                        (Some immediateMatch, s4) \<Rightarrow>
                          (Inr (Matched immediateMatch),
                           notify immediateMatch
                             (eng\<lparr>activeSearches := (activeSearches eng)(pid := None)\<rparr>),
                           s4)
                      | (None, s4) \<Rightarrow>
                          (let eng1 = setAIFallbackTimeout participantData
                                        (startContinuousSearch participantData eng)
                           in case getQueuePosition (queueKey roundNumber') pid s4 of
                                (Inl e, s5) \<Rightarrow> (Inl e, eng1, s5)
                              | (Inr queuePosition, s5) \<Rightarrow>
                                  (Inr (Searching queuePosition
                                          (real_of_int (humanSearchTimeoutMs env) / 1000)),
                                   eng1, s5)))))"

text \<open>
  \<^verbatim>\<open>startMatchmaking(participantData)\<close>: an error of the \<^verbatim>\<open>try\<close> block deletes the
  active-search record and returns the result of \<^verbatim>\<open>createAIMatch\<close>.
\<close>

definition startMatchmaking ::
  "env \<Rightarrow> participant_data \<Rightarrow> engine \<times> store \<Rightarrow> start_result \<times> engine \<times> store" where
  "startMatchmaking env participantData es =
     (let eng = fst es; s = snd es;
          pid = participantId participantData
      in if activeSearches eng pid \<noteq> None then (AlreadySearching, eng, s)
         else
           let eng1 = eng\<lparr>activeSearches := (activeSearches eng)
                        (pid \<mapsto> \<lparr>startTime = now env,
                                 search_round = roundNumber participantData,
                                 searchAttempts = 0\<rparr>)\<rparr>
           in case searchBody env participantData (eng1, s) of
                (Inr result, eng2, s2) \<Rightarrow> (result, eng2, s2)
              | (Inl err, eng2, s2) \<Rightarrow>
                  (case createAIMatch env participantData
                          (eng2\<lparr>activeSearches := (activeSearches eng2)(pid := None)\<rparr>, s2) of
                     (aiMatch, eng3, s3) \<Rightarrow> (Matched aiMatch, eng3, s3)))"

section \<open>WebSocketService: match-found notification\<close>

text \<open>
  A connected client (\<open>socket\<close>: whether \<^verbatim>\<open>clientInfo.socket\<close> is set), the payload of a
  \<^verbatim>\<open>match_found\<close> event (the match record spread, plus \<^verbatim>\<open>myRole\<close> and \<^verbatim>\<open>timestamp\<close>), and the
  dispatcher: its client map and the events emitted so far, oldest first, each with the
  participant whose socket received it.
\<close>

record client =
  client_name :: "string option"
  socket :: bool
  lastSeen :: int

record match_found = match +
  myRole :: string
  timestamp :: int

record dispatcher =
  connectedClients :: "string \<rightharpoonup> client"
  emitted :: "(string \<times> string \<times> match_found) list"

text \<open>\<^verbatim>\<open>sendToParticipant(participantId, event, data)\<close>; \<open>t\<close> is \<^verbatim>\<open>Date.now()\<close>.\<close>

definition sendToParticipant ::
  "int \<Rightarrow> string \<Rightarrow> string \<Rightarrow> match_found \<Rightarrow> dispatcher \<Rightarrow> bool \<times> dispatcher" where
  "sendToParticipant t pid event data d =
     (case connectedClients d pid of
        None \<Rightarrow> (False, d)
      | Some clientInfo \<Rightarrow>
          if socket clientInfo
          then (True,
                d\<lparr>emitted := emitted d @ [(pid, event, data)],
                  connectedClients := (connectedClients d)(pid \<mapsto> clientInfo\<lparr>lastSeen := t\<rparr>)\<rparr>)
          else (False, d))"

text \<open>
  The name chain \<^verbatim>\<open>matchData.participantN_name || connectedClients.get(id)?.name ||
  `Player ${id.slice(-4)}`\<close>. A match record of the engine has no \<^verbatim>\<open>participantN_name\<close>, so
  the chain starts at the client map.
\<close>

definition peer_name :: "dispatcher \<Rightarrow> string \<Rightarrow> string" where
  "peer_name d pid =
     (case connectedClients d pid of
        None \<Rightarrow> ''Player '' @ slice_last4 pid
      | Some clientInfo \<Rightarrow>
          if truthy_str (client_name clientInfo) then the (client_name clientInfo)
          else ''Player '' @ slice_last4 pid)"

text \<open>
  \<^verbatim>\<open>notifyMatchFound(matchData)\<close> on a match record of the engine (\<^verbatim>\<open>isAI\<close> is a boolean
  there, so the string coercion does nothing). A TypeError inside (\<^verbatim>\<open>slice\<close> on a
  \<^verbatim>\<open>null\<close> participant2 id, \<^verbatim>\<open>skill_level\<close> of a \<^verbatim>\<open>null\<close> descriptor) is caught by the outer
  \<^verbatim>\<open>catch\<close>: nothing is sent.
\<close>

definition notifyMatchFound :: "int \<Rightarrow> match \<Rightarrow> dispatcher \<Rightarrow> dispatcher" where
  "notifyMatchFound t matchData d =
     (if isAI matchData
      then snd (sendToParticipant t (participant1_id matchData) ''match_found''
                  (match.extend matchData (match_found.fields ''participant1'' t)) d)
      else
        (case participant2_id matchData of
           None \<Rightarrow> d
         | Some p2 \<Rightarrow>
             let p1 = participant1_id matchData;
                 participant1Name = peer_name d p1;
                 participant2Name = peer_name d p2;
                 originalOpponent = JSON_parse (opponent matchData)
             in case property originalOpponent ''skill_level'' of
                  Inl e \<Rightarrow> d
                | Inr skill \<Rightarrow>
                    let participant1MatchData =
                          match.extend
                            (matchData\<lparr>opponent := JSON_stringify (JObj
                               [(''name'', JStr participant2Name),
                                (''participant_id'', JStr p2),
                                (''skill_level'', skill)])\<rparr>)
                            (match_found.fields ''participant1'' t);
                        participant2MatchData =
                          match.extend
                            (matchData\<lparr>opponent := JSON_stringify (JObj
                               [(''name'', JStr participant1Name),
                                (''participant_id'', JStr p1),
                                (''skill_level'', JNum 7)])\<rparr>)
                            (match_found.fields ''participant2'' t)
                    in snd (sendToParticipant t p2 ''match_found'' participant2MatchData
                         (snd (sendToParticipant t p1 ''match_found'' participant1MatchData d)))))"

subsection \<open>Example data\<close>

text \<open>Concrete queue entries (round 1, group \<^verbatim>\<open>control\<close>) used to run the model.\<close>

definition example_entry :: "string \<Rightarrow> real \<Rightarrow> int \<Rightarrow> queue_entry" where
  "example_entry pid skill t =
     \<lparr>participantId = pid, participantName = None, roundNumber = 1, skillLevel = skill,
      treatmentGroup = ''control'', joinedAt = t, entry_status = ''waiting''\<rparr>"


text \<open>A participant of round 1 with no display name.\<close>

definition example_participant :: "string \<Rightarrow> real \<Rightarrow> participant_data" where
  "example_participant pid skill =
     \<lparr>participantId = pid, participantName = None, roundNumber = 1, skillLevel = skill,
      treatmentGroup = ''control''\<rparr>"

text \<open>
  An environment: time 1000, threshold 1.5, timeout 45 s, a database that knows no
  participant and no active match, constant name functions, and no other task running.
\<close>

definition example_env :: env where
  "example_env =
     \<lparr>now = 1000, isoNow = ''2025-01-01T00:00:00.000Z'',
      uuid_human = ''m-human'', uuid_opponent = ''m-opp'', uuid_ai = ''m-ai'',
      uuid_fallback = ''m-fallback'',
      rnd_pick = 0.5, rnd_skill = 0.5,
      skillMatchingThreshold = 1.5, humanSearchTimeoutMs = 45000,
      getActiveMatchForParticipant = (\<lambda>pid r. Inr None),
      getParticipant = (\<lambda>pid. Inr JNull),
      getPlayerDisplayName = (\<lambda>v. ''Player''),
      getBotName = (\<lambda>s. ''Bot''),
      interleave = (\<lambda>s. s)\<rparr>"

text \<open>An empty Redis whose commands all succeed, and an engine with nothing in flight.\<close>

definition empty_store :: store where
  "empty_store =
     \<lparr>queues = (\<lambda>k. []), matches = (\<lambda>k. Map.empty), statuses = (\<lambda>k. Map.empty),
      stats = (\<lambda>k. 0), locks = Map.empty, faults = []\<rparr>"

definition idle_engine :: engine where
  "idle_engine =
     \<lparr>activeSearches = Map.empty, matchTimeouts = Map.empty, intervals = [],
      onMatchFound = True, notified = []\<rparr>"

text \<open>The store in which \<^verbatim>\<open>p-b\<close> (skill 7.5) waits in the queue of round 1.\<close>

definition waiting_store :: store where
  "waiting_store =
     empty_store\<lparr>queues := (queues empty_store)(queueKey 1 := [example_entry ''p-b'' 7.5 900])\<rparr>"

text \<open>An AI match record as a caller may pass it to \<^verbatim>\<open>createMatch\<close>, with status \<^verbatim>\<open>completed\<close>.\<close>

definition example_ai_match :: match where
  "example_ai_match =
     \<lparr>match_id = ''m-1'', participant1_id = ''p-a'', participant2_id = None,
      round_number = 2, match_type = ''human_vs_ai'', match_status = ''completed'',
      created_at = ''2025-01-01T00:00:00.000Z'', isAI = True,
      opponent = JSON_stringify (JObj [(''id'', JStr ''ai_1''), (''skill_level'', JNum 7.2)]),
      aiSettings = None\<rparr>"


text \<open>
  The human match of \<^verbatim>\<open>p-a\<close> (skill 3) with the waiting \<^verbatim>\<open>p-b\<close> (skill 7.5), as
  \<^verbatim>\<open>createHumanMatch\<close> builds it in the example environment, and a dispatcher to which both
  are connected.
\<close>

definition example_human_match :: match where
  "example_human_match =
     \<lparr>match_id = ''m-human'', participant1_id = ''p-a'', participant2_id = Some ''p-b'',
      round_number = 1, match_type = ''live'', match_status = ''active'',
      created_at = ''2025-01-01T00:00:00.000Z'', isAI = False,
      opponent = JSON_stringify (JObj
        [(''name'', JStr ''Player''), (''participant_id'', JStr ''p-b''),
         (''skill_level'', JNum 7.5)]),
      aiSettings = None\<rparr>"

definition example_dispatcher :: dispatcher where
  "example_dispatcher =
     \<lparr>connectedClients =
        [''p-a'' \<mapsto> \<lparr>client_name = Some ''Ann'', socket = True, lastSeen = 0\<rparr>,
         ''p-b'' \<mapsto> \<lparr>client_name = None, socket = True, lastSeen = 0\<rparr>],
      emitted = []\<rparr>"

section \<open>Properties\<close>

subsection \<open>Unfolding sets for running the model\<close>

lemmas redis_defs = command_def expire_def setParticipantStatus_def getParticipantStatus_def
  is_matched_def zAdd_def addToQueue_def removeFromQueue_def getQueueEntries_def
  getQueuePosition_def createMatch_def getMatch_def entries_def incrementMatchStats_def
  acquireLock_def releaseLock_def queueKey_def lockKey_def show_int_def show_nat.simps digit_def
  num_text_def JSON_stringify_def

lemmas engine_defs = notify_def slice_last4_def cleanupParticipantQueue_def joinQueue_def
  both_def createHumanMatch_def ai_createAIMatch_def fallbackMatch_def createAIMatch_def
  underLock_def findImmediateMatch_def startContinuousSearch_def setAIFallbackTimeout_def
  searching_metadata_def searchBody_def startMatchmaking_def findBestSkillMatch_def

lemmas example_defs = example_entry_def example_participant_def example_env_def
  empty_store_def idle_engine_def waiting_store_def

lemmas ai_defs = selectOpponent_def aiOpponents_def index_def ai_opponent.extend_def
  selected_opponent.fields_def randomizeSkillLevel_def

lemmas record_defs = participant_data.extend_def participant_data.truncate_def
  queue_entry.fields_def

subsection \<open>Store commands\<close>

lemma command_ok [simp]: "faults s = [] \<Longrightarrow> command s = (True, s)"
  by (simp add: command_def)

lemma command_frame [simp]:
  "queues (snd (command s)) = queues s" "matches (snd (command s)) = matches s"
  "statuses (snd (command s)) = statuses s" "stats (snd (command s)) = stats s"
  "locks (snd (command s)) = locks s"
  by (simp_all add: command_def split: list.splits)

lemma createMatch_written:
  assumes "createMatch t mid md s = (Inr ok, s1)"
  shows "matches s1 mid =
           matches s mid ++ fold (\<lambda>(key, value) r. r(key \<mapsto> to_redis value)) md Map.empty ++
             [''createdAt'' \<mapsto> Chars (show_int t), ''status'' \<mapsto> Chars ''active'']"
  using assms
  by (auto simp: createMatch_def expire_def command_def Let_def
           split: list.splits bool.splits prod.splits if_splits)

lemma getMatch_reads:
  assumes "getMatch mid s1 = (Inr h, s2)"
  shows "h = matches s1 mid"
  using assms by (auto simp: getMatch_def command_def split: list.splits bool.splits prod.splits if_splits)

lemma createMatch_ok:
  "faults s = [] \<Longrightarrow> \<exists>s1. createMatch t mid md s = (Inr True, s1) \<and> faults s1 = []"
  by (simp add: createMatch_def expire_def Let_def)

lemma getMatch_ok:
  "faults s = [] \<Longrightarrow> getMatch mid s = (Inr (matches s mid), s)"
  by (simp add: getMatch_def)

subsection \<open>Helper lemmas on first matches and nearest elements\<close>

lemma filter_first_index:
  "filter P xs \<noteq> [] \<Longrightarrow>
     \<exists>i<length xs. filter P xs ! 0 = xs ! i \<and> P (xs ! i) \<and> (\<forall>j<i. \<not> P (xs ! j))"
proof (induction xs)
  case Nil
  then show ?case by simp
next
  case (Cons x xs)
  show ?case
  proof (cases "P x")
    case True
    then show ?thesis by (intro exI[of _ 0]) simp
  next
    case False
    with Cons obtain i where i: "i < length xs" "filter P xs ! 0 = xs ! i" "P (xs ! i)"
      "\<forall>j<i. \<not> P (xs ! j)" by auto
    have "\<forall>j<Suc i. \<not> P ((x # xs) ! j)"
      using False i(4) by (auto simp: less_Suc_eq_0_disj)
    with i False show ?thesis by (intro exI[of _ "Suc i"]) simp
  qed
qed

lemma foldl_closer_index:
  "\<exists>i\<le>length xs. foldl (closer d s) x xs = (x # xs) ! i
      \<and> (\<forall>j\<le>length xs. \<bar>d ((x # xs) ! i) - s\<bar> \<le> \<bar>d ((x # xs) ! j) - s\<bar>)
      \<and> (\<forall>j<i. \<bar>d ((x # xs) ! i) - s\<bar> < \<bar>d ((x # xs) ! j) - s\<bar>)"
proof (induction xs rule: rev_induct)
  case Nil
  show ?case by simp
next
  case (snoc y ys)
  then obtain i where i: "i \<le> length ys" "foldl (closer d s) x ys = (x # ys) ! i"
    and least: "\<forall>j\<le>length ys. \<bar>d ((x # ys) ! i) - s\<bar> \<le> \<bar>d ((x # ys) ! j) - s\<bar>"
    and first: "\<forall>j<i. \<bar>d ((x # ys) ! i) - s\<bar> < \<bar>d ((x # ys) ! j) - s\<bar>"
    by blast
  let ?zs = "x # ys @ [y]"
  have old: "?zs ! j = (x # ys) ! j" if "j \<le> length ys" for j
    using that by (cases j) (auto simp: nth_append)
  have new: "?zs ! Suc (length ys) = y"
    by (simp add: nth_append)
  show ?case
  proof (cases "\<bar>d y - s\<bar> < \<bar>d ((x # ys) ! i) - s\<bar>")
    case True
    have res: "foldl (closer d s) x (ys @ [y]) = ?zs ! Suc (length ys)"
      using True i(2) new by (simp add: closer_def)
    have "\<bar>d y - s\<bar> < \<bar>d (?zs ! j) - s\<bar>" if "j < Suc (length ys)" for j
    proof -
      from that have j: "j \<le> length ys" by simp
      with least have "\<bar>d ((x # ys) ! i) - s\<bar> \<le> \<bar>d ((x # ys) ! j) - s\<bar>" by blast
      with True old[OF j] show ?thesis by simp
    qed
    then have "(\<forall>j\<le>length (ys @ [y]). \<bar>d (?zs ! Suc (length ys)) - s\<bar> \<le> \<bar>d (?zs ! j) - s\<bar>)
        \<and> (\<forall>j<Suc (length ys). \<bar>d (?zs ! Suc (length ys)) - s\<bar> < \<bar>d (?zs ! j) - s\<bar>)"
      unfolding new by (auto simp: le_Suc_eq less_imp_le simp del: nth_Cons_Suc)
    with res show ?thesis
      by (intro exI[of _ "Suc (length ys)"]) simp
  next
    case False
    have res: "foldl (closer d s) x (ys @ [y]) = ?zs ! i"
      using False i old[OF i(1)] by (simp add: closer_def)
    have a: "\<bar>d (?zs ! i) - s\<bar> \<le> \<bar>d (?zs ! j) - s\<bar>" if "j \<le> length (ys @ [y])" for j
    proof (cases "j \<le> length ys")
      case True
      with least old[OF True] old[OF i(1)] show ?thesis by simp
    next
      case False
      with that have "j = Suc (length ys)" by simp
      with \<open>\<not> \<bar>d y - s\<bar> < \<bar>d ((x # ys) ! i) - s\<bar>\<close> new old[OF i(1)] show ?thesis by simp
    qed
    have b: "\<bar>d (?zs ! i) - s\<bar> < \<bar>d (?zs ! j) - s\<bar>" if "j < i" for j
    proof -
      from that i(1) have j: "j \<le> length ys" by simp
      with first that old[OF j] old[OF i(1)] show ?thesis by simp
    qed
    from res a b i(1) show ?thesis
      by (intro exI[of _ i]) simp
  qed
qed

lemma findBestSkillMatch_index:
  assumes "ws \<noteq> []"
  shows "\<exists>i. i < length ws \<and> findBestSkillMatch T s ws = Some (ws ! i) \<and>
        (if \<exists>c\<in>set ws. \<bar>skillLevel c - s\<bar> \<le> T
         then \<bar>skillLevel (ws ! i) - s\<bar> \<le> T \<and> (\<forall>j<i. \<not> \<bar>skillLevel (ws ! j) - s\<bar> \<le> T)
         else (\<forall>j<length ws. \<bar>skillLevel (ws ! i) - s\<bar> \<le> \<bar>skillLevel (ws ! j) - s\<bar>)
            \<and> (\<forall>j<i. \<bar>skillLevel (ws ! i) - s\<bar> < \<bar>skillLevel (ws ! j) - s\<bar>))"
proof (cases "\<exists>c\<in>set ws. \<bar>skillLevel c - s\<bar> \<le> T")
  case True
  let ?P = "\<lambda>c. \<bar>skillLevel c - s\<bar> \<le> T"
  from True have ne: "filter ?P ws \<noteq> []" by (simp add: filter_empty_conv)
  from filter_first_index[OF ne] obtain i where "i < length ws" "filter ?P ws ! 0 = ws ! i"
    "?P (ws ! i)" "\<forall>j<i. \<not> ?P (ws ! j)" by blast
  with True ne assms show ?thesis
    by (intro exI[of _ i]) (simp add: findBestSkillMatch_def)
next
  case False
  then have em: "filter (\<lambda>c. \<bar>skillLevel c - s\<bar> \<le> T) ws = []" by (simp add: filter_empty_conv)
  from assms obtain x xs where ws: "ws = x # xs" by (cases ws) auto
  from foldl_closer_index[of xs skillLevel s x] obtain i where i: "i \<le> length xs"
    "foldl (closer skillLevel s) x xs = (x # xs) ! i"
    "\<forall>j\<le>length xs. \<bar>skillLevel ((x # xs) ! i) - s\<bar> \<le> \<bar>skillLevel ((x # xs) ! j) - s\<bar>"
    "\<forall>j<i. \<bar>skillLevel ((x # xs) ! i) - s\<bar> < \<bar>skillLevel ((x # xs) ! j) - s\<bar>" by blast
  have "findBestSkillMatch T s ws = Some (ws ! i)"
    using em i(2) by (simp add: findBestSkillMatch_def ws)
  moreover have "i < length ws" using i(1) ws by simp
  moreover have "\<forall>j<length ws. \<bar>skillLevel (ws ! i) - s\<bar> \<le> \<bar>skillLevel (ws ! j) - s\<bar>"
    using i(3) ws by (simp add: less_Suc_eq_le)
  ultimately show ?thesis using False i(4) ws
    by (intro exI[of _ i]) simp
qed


subsection \<open>C2: skill-window selection (Algorithm A)\<close>



subsection \<open>C4: opponent selection over the roster\<close>





lemma selected_fields [simp]:
  "ai_skillLevel (ai_opponent.extend sel (selected_opponent.fields a u)) = ai_skillLevel sel"
  "actualSkillLevel (ai_opponent.extend sel (selected_opponent.fields a u)) = a"
  "matchId (ai_opponent.extend sel (selected_opponent.fields a u)) = u"
  "ai_opponent.truncate (ai_opponent.extend sel (selected_opponent.fields a u)) = sel"
  by (simp_all add: ai_opponent.extend_def selected_opponent.fields_def ai_opponent.truncate_def)




subsection \<open>C8: adaptation bonus in the response simulation\<close>




subsection \<open>C10: createMatch forces status active\<close>

text \<open>
  Claim C10. Whatever \<^verbatim>\<open>matchData\<close> holds, also a \<^verbatim>\<open>status\<close> of its own, a \<^verbatim>\<open>getMatch\<close> that
  follows a successful \<^verbatim>\<open>createMatch\<close> returns \<^verbatim>\<open>status = 'active'\<close> and \<^verbatim>\<open>createdAt\<close> = the
  time of the call; and when no command of the client rejects, both calls do succeed.
\<close>

theorem createMatch_forces_active:
  "(createMatch t mid md s = (Inr ok, s1) \<and> getMatch mid s1 = (Inr h, s2) \<longrightarrow>
      h ''status'' = Some (Chars ''active'') \<and> h ''createdAt'' = Some (Chars (show_int t)))
   \<and> (faults s = [] \<longrightarrow>
      (\<exists>s1 s2 h. createMatch t mid md s = (Inr True, s1) \<and> getMatch mid s1 = (Inr h, s2)
         \<and> h ''status'' = Some (Chars ''active'')))"
proof (intro conjI impI)
  assume a: "createMatch t mid md s = (Inr ok, s1) \<and> getMatch mid s1 = (Inr h, s2)"
  from a have c: "createMatch t mid md s = (Inr ok, s1)"
    and g: "getMatch mid s1 = (Inr h, s2)" by simp_all
  have h: "h = matches s1 mid" by (rule getMatch_reads[OF g])
  show "h ''status'' = Some (Chars ''active'')"
    unfolding h createMatch_written[OF c] by simp
  show "h ''createdAt'' = Some (Chars (show_int t))"
    unfolding h createMatch_written[OF c] by simp
next
  assume f: "faults s = []"
  from createMatch_ok[OF f] obtain s1 where s1: "createMatch t mid md s = (Inr True, s1)"
    "faults s1 = []" by blast
  have g: "getMatch mid s1 = (Inr (matches s1 mid), s1)" by (rule getMatch_ok[OF s1(2)])
  have "matches s1 mid ''status'' = Some (Chars ''active'')"
    unfolding createMatch_written[OF s1(1)] by simp
  with s1(1) g show "\<exists>s1 s2 h. createMatch t mid md s = (Inr True, s1) \<and> getMatch mid s1 = (Inr h, s2)
         \<and> h ''status'' = Some (Chars ''active'')"
    by (intro exI[of _ s1] exI[of _ "matches s1 mid"]) simp
qed

text \<open>Witness: a match record whose own status is \<^verbatim>\<open>completed\<close>, on an empty store.\<close>

theorem createMatch_forces_active_witness:
  "faults empty_store = [] \<and>
   map_of (entries example_ai_match) ''status'' = Some (VStr (Chars ''completed'')) \<and>
   (\<exists>s1 s2 h. createMatch 1000 ''m-1'' (entries example_ai_match) empty_store = (Inr True, s1)
       \<and> getMatch ''m-1'' s1 = (Inr h, s2) \<and> h ''status'' = Some (Chars ''active''))"
proof -
  have f: "faults empty_store = []" by (simp add: empty_store_def)
  have e: "map_of (entries example_ai_match) ''status'' = Some (VStr (Chars ''completed''))"
    by (simp add: entries_def example_ai_match_def)
  from createMatch_forces_active[of 1000 "''m-1''" "entries example_ai_match" empty_store] f e
  show ?thesis by blast
qed

subsection \<open>C7: round trip through the match store\<close>

lemma roundtrip_value:
  assumes "faults s = []"
  shows "roundtrip t mid md s k =
     map_option VStr ((matches s mid ++ fold (\<lambda>(key, value) r. r(key \<mapsto> to_redis value)) md Map.empty ++
             [''createdAt'' \<mapsto> Chars (show_int t), ''status'' \<mapsto> Chars ''active'']) k)"
proof -
  from createMatch_ok[OF assms] obtain s1 where s1: "createMatch t mid md s = (Inr True, s1)"
    "faults s1 = []" by blast
  show ?thesis
    using s1 getMatch_ok[OF s1(2)] createMatch_written[OF s1(1)]
    by (simp add: roundtrip_def)
qed

text \<open>
  Claim C7, as the code has it. When no command rejects, \<^verbatim>\<open>createMatch\<close> followed by
  \<^verbatim>\<open>getMatch\<close> returns the five fields as strings: \<^verbatim>\<open>id\<close> and \<^verbatim>\<open>participant1_id\<close> unchanged,
  \<^verbatim>\<open>participant2_id\<close> as given or the empty string for \<^verbatim>\<open>null\<close>, \<^verbatim>\<open>round_number\<close> as its
  decimal digits, \<^verbatim>\<open>isAI\<close> as \<^verbatim>\<open>'true'\<close> or \<^verbatim>\<open>'false'\<close>.
\<close>

theorem createMatch_getMatch_strings:
  assumes "faults s = []"
  shows "roundtrip t (match_id m) (entries m) s ''id'' = Some (VStr (Chars (match_id m)))
   \<and> roundtrip t (match_id m) (entries m) s ''participant1_id'' = Some (VStr (Chars (participant1_id m)))
   \<and> roundtrip t (match_id m) (entries m) s ''participant2_id''
        = Some (VStr (Chars (case participant2_id m of None \<Rightarrow> [] | Some p \<Rightarrow> p)))
   \<and> roundtrip t (match_id m) (entries m) s ''round_number'' = Some (VStr (Chars (show_int (round_number m))))
   \<and> roundtrip t (match_id m) (entries m) s ''isAI''
        = Some (VStr (Chars (if isAI m then ''true'' else ''false'')))"
  unfolding roundtrip_value[OF assms]
  by (simp add: entries_def split: option.splits)

text \<open>Witness: the AI match record of the examples on an empty store.\<close>

theorem createMatch_getMatch_strings_witness:
  "faults empty_store = []
   \<and> roundtrip 1000 ''m-1'' (entries example_ai_match) empty_store ''id'' = Some (VStr (Chars ''m-1''))
   \<and> roundtrip 1000 ''m-1'' (entries example_ai_match) empty_store ''participant1_id'' = Some (VStr (Chars ''p-a''))
   \<and> roundtrip 1000 ''m-1'' (entries example_ai_match) empty_store ''participant2_id'' = Some (VStr (Chars []))
   \<and> roundtrip 1000 ''m-1'' (entries example_ai_match) empty_store ''round_number'' = Some (VStr (Chars ''2''))
   \<and> roundtrip 1000 ''m-1'' (entries example_ai_match) empty_store ''isAI'' = Some (VStr (Chars ''true''))"
proof -
  have f: "faults empty_store = []" by (simp add: empty_store_def)
  have m: "match_id example_ai_match = ''m-1''" "participant1_id example_ai_match = ''p-a''"
    "participant2_id example_ai_match = None" "round_number example_ai_match = 2"
    "isAI example_ai_match" by (simp_all add: example_ai_match_def)
  have d: "show_int 2 = ''2''" by (simp add: show_int_def show_nat.simps digit_def)
  from createMatch_getMatch_strings[OF f, of 1000 example_ai_match] f show ?thesis
    by (simp add: m d)
qed

text \<open>
  The claim as stated fails: for an AI match the input holds the boolean \<^verbatim>\<open>true\<close>, \<^verbatim>\<open>null\<close>
  and the number 2; what comes back is the strings \<^verbatim>\<open>'true'\<close>, \<^verbatim>\<open>''\<close> and \<^verbatim>\<open>'2'\<close>.
\<close>

theorem createMatch_getMatch_types_counterexample:
  "map_of (entries example_ai_match) ''isAI'' = Some (VBool True)
   \<and> roundtrip 1000 (match_id example_ai_match) (entries example_ai_match) empty_store ''isAI''
       = Some (VStr (Chars ''true''))
   \<and> map_of (entries example_ai_match) ''participant2_id'' = Some VNull
   \<and> roundtrip 1000 (match_id example_ai_match) (entries example_ai_match) empty_store ''participant2_id''
       = Some (VStr (Chars []))
   \<and> map_of (entries example_ai_match) ''round_number'' = Some (VNum 2)
   \<and> roundtrip 1000 (match_id example_ai_match) (entries example_ai_match) empty_store ''round_number''
       = Some (VStr (Chars ''2''))
   \<and> roundtrip 1000 (match_id example_ai_match) (entries example_ai_match) empty_store ''isAI''
       \<noteq> map_of (entries example_ai_match) ''isAI''"
  by (simp add: roundtrip_def createMatch_def getMatch_def expire_def command_def empty_store_def
        entries_def example_ai_match_def show_int_def show_nat.simps digit_def)

subsection \<open>C6: a second startMatchmaking changes nothing\<close>

lemma searchBody_searching_keeps_search:
  assumes "searchBody env p (eng, s) = (Inr (Searching qp w), eng', s')"
  shows "activeSearches eng' = activeSearches eng"
  using assms
  by (auto simp: searchBody_def Let_def setAIFallbackTimeout_def startContinuousSearch_def
           split: prod.splits sum.splits option.splits)

text \<open>
  Claim C6. If an active-search record exists for the participant, \<^verbatim>\<open>startMatchmaking\<close>
  returns \<^verbatim>\<open>already_searching\<close> and leaves the engine (searches, scanners, timers) and the
  store (queue, status) as they were. In particular, after a call that returned
  \<^verbatim>\<open>searching\<close> the record exists, and a second call, at any later time, does so.
\<close>

theorem startMatchmaking_idempotent:
  "(activeSearches eng (participantId p) \<noteq> None \<longrightarrow>
      startMatchmaking env p (eng, s) = (AlreadySearching, eng, s))
   \<and> (startMatchmaking env p (eng, s) = (Searching qp w, eng1, s1) \<longrightarrow>
      activeSearches eng1 (participantId p) \<noteq> None
      \<and> startMatchmaking env' p (eng1, s1) = (AlreadySearching, eng1, s1))"
proof (intro conjI impI)
  assume "activeSearches eng (participantId p) \<noteq> None"
  then show "startMatchmaking env p (eng, s) = (AlreadySearching, eng, s)"
    by (simp add: startMatchmaking_def)
next
  assume a: "startMatchmaking env p (eng, s) = (Searching qp w, eng1, s1)"
  let ?eng0 = "eng\<lparr>activeSearches := (activeSearches eng)
                        (participantId p \<mapsto> \<lparr>startTime = now env,
                                 search_round = roundNumber p,
                                 searchAttempts = 0\<rparr>)\<rparr>"
  from a have fresh: "activeSearches eng (participantId p) = None"
    by (auto simp: startMatchmaking_def Let_def split: if_splits)
  obtain r e2 s2 where sb: "searchBody env p (?eng0, s) = (r, e2, s2)"
    by (cases "searchBody env p (?eng0, s)") auto
  have "r = Inr (Searching qp w) \<and> e2 = eng1 \<and> s2 = s1"
  proof (cases r)
    case (Inl err)
    with a fresh sb show ?thesis
      by (auto simp: startMatchmaking_def Let_def split: prod.splits)
  next
    case (Inr res)
    with a fresh sb show ?thesis
      by (auto simp: startMatchmaking_def Let_def)
  qed
  with sb have "searchBody env p (?eng0, s) = (Inr (Searching qp w), eng1, s1)" by simp
  from searchBody_searching_keeps_search[OF this]
  show act: "activeSearches eng1 (participantId p) \<noteq> None" by simp
  then show "startMatchmaking env' p (eng1, s1) = (AlreadySearching, eng1, s1)"
    by (simp add: startMatchmaking_def)
qed

text \<open>Witness: participant \<^verbatim>\<open>p-a\<close> starts twice on an empty store.\<close>

theorem startMatchmaking_idempotent_witness:
  "fst (startMatchmaking example_env (example_participant ''p-a'' 7) (idle_engine, empty_store))
     = Searching 1 45
   \<and> startMatchmaking example_env (example_participant ''p-a'' 7)
       (snd (startMatchmaking example_env (example_participant ''p-a'' 7) (idle_engine, empty_store)))
     = (AlreadySearching,
        snd (startMatchmaking example_env (example_participant ''p-a'' 7) (idle_engine, empty_store)))"
proof -
  let ?r = "startMatchmaking example_env (example_participant ''p-a'' 7) (idle_engine, empty_store)"
  have v: "fst ?r = Searching 1 45"
    by (simp add: redis_defs engine_defs example_defs record_defs Let_def)
  then have "?r = (Searching 1 45, fst (snd ?r), snd (snd ?r))"
    by (metis prod.collapse)
  from startMatchmaking_idempotent[where eng = idle_engine and s = empty_store
        and p = "example_participant ''p-a'' 7" and env = example_env and env' = example_env
        and qp = 1 and w = 45 and ?eng1.0 = "fst (snd ?r)" and ?s1.0 = "snd (snd ?r)"] this
  have "startMatchmaking example_env (example_participant ''p-a'' 7) (fst (snd ?r), snd (snd ?r))
     = (AlreadySearching, fst (snd ?r), snd (snd ?r))" by blast
  with v show ?thesis by simp
qed

subsection \<open>C1: no participant is matched with themselves\<close>

lemma createHumanMatch_Inr:
  assumes "createHumanMatch env a b s = (Inr m, s1)"
  shows "participantId a \<noteq> participantId b \<and> participant1_id m = participantId a
       \<and> participant2_id m = Some (participantId b)"
proof -
  from assms have ne: "participantId a \<noteq> participantId b"
    by (auto simp: createHumanMatch_def Let_def split: if_splits)
  from assms ne show ?thesis
    by (auto simp: createHumanMatch_def Let_def split: prod.splits sum.splits)
qed

lemma createHumanMatch_self:
  "participantId a = participantId b \<Longrightarrow> createHumanMatch env a b s = (Inl SelfMatch, s)"
  by (simp add: createHumanMatch_def Let_def)

lemma findBestSkillMatch_mem:
  assumes "findBestSkillMatch T sk ws = Some c"
  shows "c \<in> set ws"
proof (cases "ws = []")
  case True
  with assms show ?thesis by (simp add: findBestSkillMatch_def)
next
  case False
  from findBestSkillMatch_index[OF False, of T sk] obtain i where
    "i < length ws" "findBestSkillMatch T sk ws = Some (ws ! i)" by blast
  with assms show ?thesis by auto
qed

lemma getQueueEntries_excludes:
  assumes "pid \<noteq> []" "getQueueEntries key (Some pid) s = (Inr ws, s2)"
  shows "\<forall>c\<in>set ws. participantId c \<noteq> pid"
  using assms
  by (auto simp: getQueueEntries_def Let_def split: prod.splits bool.splits)

lemma underLock_Some:
  assumes "underLock env p lv s = (Inr (Some m), s2)"
  shows "participant1_id m = participantId p
       \<and> (\<exists>q. participant2_id m = Some q \<and> q \<noteq> participantId p)"
proof -
  from assms obtain c sa sb where "createHumanMatch env p (c :: queue_entry) sa = (Inr m, sb)"
    by (auto simp: underLock_def Let_def split: prod.splits sum.splits option.splits if_splits)
  from createHumanMatch_Inr[OF this] show ?thesis by auto
qed

lemma findImmediateMatch_Some:
  assumes "findImmediateMatch env p s = (Some m, s3)"
  shows "participant1_id m = participantId p
       \<and> (\<exists>q. participant2_id m = Some q \<and> q \<noteq> participantId p)"
proof -
  from assms obtain lv sa sb where "underLock env p lv sa = (Inr (Some m), sb)"
    by (auto simp: findImmediateMatch_def Let_def split: prod.splits sum.splits bool.splits)
  from underLock_Some[OF this] show ?thesis .
qed

text \<open>
  Claim C1. A human match record that \<^verbatim>\<open>createHumanMatch\<close> produces has participant 1 and
  participant 2 of different ids. Called with equal ids it throws the self-match error and
  leaves the store as it was, so no match record is written. In \<^verbatim>\<open>findImmediateMatch\<close> the
  queue read that excludes the searcher returns no entry of theirs, so the candidate chosen
  from it is another participant; the exclusion is applied for a non-empty participant id,
  which is what the callers of the engine pass on. A match returned by
  \<^verbatim>\<open>findImmediateMatch\<close> has the searcher as participant 1 and someone else as participant 2.
\<close>

theorem no_self_match:
  "(createHumanMatch env a b s = (Inr m, s1) \<longrightarrow>
      participant1_id m = participantId a \<and> participant2_id m = Some (participantId b)
      \<and> participantId a \<noteq> participantId b)
   \<and> (participantId a = participantId b \<longrightarrow> createHumanMatch env a b s = (Inl SelfMatch, s))
   \<and> (participantId p \<noteq> [] \<and> getQueueEntries key (Some (participantId p)) s = (Inr waiting, s2)
        \<and> findBestSkillMatch T sk waiting = Some c \<longrightarrow> participantId c \<noteq> participantId p)
   \<and> (findImmediateMatch env p s = (Some m', s3) \<longrightarrow>
        participant1_id m' = participantId p
        \<and> (\<exists>q. participant2_id m' = Some q \<and> q \<noteq> participantId p))"
proof (intro conjI impI)
  assume "createHumanMatch env a b s = (Inr m, s1)"
  from createHumanMatch_Inr[OF this]
  show "participant1_id m = participantId a" "participant2_id m = Some (participantId b)"
    "participantId a \<noteq> participantId b" by simp_all
next
  assume "participantId a = participantId b"
  then show "createHumanMatch env a b s = (Inl SelfMatch, s)" by (rule createHumanMatch_self)
next
  assume h: "participantId p \<noteq> [] \<and> getQueueEntries key (Some (participantId p)) s = (Inr waiting, s2)
        \<and> findBestSkillMatch T sk waiting = Some c"
  then have "c \<in> set waiting" using findBestSkillMatch_mem by blast
  moreover from h have "\<forall>c\<in>set waiting. participantId c \<noteq> participantId p"
    using getQueueEntries_excludes by blast
  ultimately show "participantId c \<noteq> participantId p" by blast
next
  assume "findImmediateMatch env p s = (Some m', s3)"
  from findImmediateMatch_Some[OF this]
  show "participant1_id m' = participantId p"
    "\<exists>q. participant2_id m' = Some q \<and> q \<noteq> participantId p" by simp_all
qed

text \<open>
  Witness: \<^verbatim>\<open>p-a\<close> against \<^verbatim>\<open>p-b\<close>, \<^verbatim>\<open>p-a\<close> against an entry of its own, a queue holding
  both, and an immediate match of \<^verbatim>\<open>p-a\<close> with the waiting \<^verbatim>\<open>p-b\<close>.
\<close>

theorem no_self_match_witness:
  "(\<exists>m s1. createHumanMatch example_env (example_participant ''p-a'' 7)
              (example_entry ''p-b'' 7.5 900) empty_store = (Inr m, s1)
       \<and> participant1_id m = ''p-a'' \<and> participant2_id m = Some ''p-b'')
   \<and> createHumanMatch example_env (example_participant ''p-a'' 7)
         (example_entry ''p-a'' 7 900) waiting_store = (Inl SelfMatch, waiting_store)
   \<and> (\<exists>waiting s2 c.
         getQueueEntries (queueKey 1) (Some ''p-a'')
           (empty_store\<lparr>queues := (queues empty_store)
              (queueKey 1 := [example_entry ''p-a'' 7 800, example_entry ''p-b'' 7.5 900])\<rparr>)
           = (Inr waiting, s2)
       \<and> findBestSkillMatch 1.5 7 waiting = Some c \<and> participantId c = ''p-b''
       \<and> participantId c \<noteq> ''p-a'')
   \<and> (\<exists>m s3. findImmediateMatch example_env (example_participant ''p-a'' 7) waiting_store
              = (Some m, s3)
       \<and> participant1_id m = ''p-a'' \<and> participant2_id m = Some ''p-b'')"
proof -
  let ?a = "example_participant ''p-a'' 7"
  let ?b = "example_entry ''p-b'' 7.5 900"
  let ?self = "example_entry ''p-a'' 7 900"
  let ?two = "empty_store\<lparr>queues := (queues empty_store)
              (queueKey 1 := [example_entry ''p-a'' 7 800, example_entry ''p-b'' 7.5 900])\<rparr>"
  have ids: "participantId ?a = ''p-a''" "participantId ?b = ''p-b''" "participantId ?self = ''p-a''"
    by (simp_all add: example_defs)
  \<comment> \<open>a human match of two participants\<close>
  have "\<exists>m. fst (createHumanMatch example_env ?a ?b empty_store) = Inr m"
    by (simp add: redis_defs engine_defs example_defs Let_def)
  then obtain m s1 where c: "createHumanMatch example_env ?a ?b empty_store = (Inr m, s1)"
    by (metis prod.collapse)
  from no_self_match[where env = example_env and a = ?a and b = ?b and s = empty_store
         and m = m and ?s1.0 = s1] c ids
  have p1: "participant1_id m = ''p-a'' \<and> participant2_id m = Some ''p-b''" by simp
  \<comment> \<open>the self-match\<close>
  from no_self_match[where env = example_env and a = ?a and b = ?self and s = waiting_store] ids
  have p2: "createHumanMatch example_env ?a ?self waiting_store = (Inl SelfMatch, waiting_store)"
    by simp
  \<comment> \<open>the queue read excludes the searcher\<close>
  have q: "getQueueEntries (queueKey 1) (Some ''p-a'') ?two = (Inr [?b], ?two)"
    by (simp add: redis_defs example_defs)
  have f: "findBestSkillMatch 1.5 7 [?b] = Some ?b"
    by (simp add: findBestSkillMatch_def example_defs)
  from no_self_match[where p = ?a and key = "queueKey 1" and s = ?two and waiting = "[?b]"
         and ?s2.0 = ?two and T = "1.5" and sk = 7 and c = ?b] q f ids
  have p3: "participantId ?b \<noteq> ''p-a''" by simp
  \<comment> \<open>the immediate match\<close>
  have "\<exists>m. fst (findImmediateMatch example_env ?a waiting_store) = Some m"
    by (simp add: redis_defs engine_defs example_defs Let_def)
  then obtain m' s3 where i: "findImmediateMatch example_env ?a waiting_store = (Some m', s3)"
    by (metis prod.collapse)
  have "map_option participant2_id (fst (findImmediateMatch example_env ?a waiting_store))
          = Some (Some ''p-b'')"
    by (simp add: redis_defs engine_defs example_defs Let_def)
  with i have p2b: "participant2_id m' = Some ''p-b''" by simp
  from no_self_match[where env = example_env and p = ?a and s = waiting_store and m' = m'
         and ?s3.0 = s3, THEN conjunct2, THEN conjunct2, THEN conjunct2, rule_format, OF i] ids
  have p4: "participant1_id m' = ''p-a''" by simp
  from c p1 p2 q f ids p3 i p4 p2b show ?thesis by blast
qed

subsection \<open>C5: match types of the records the engine builds\<close>

lemma expire_frame:
  "expire x s = (r, s') \<Longrightarrow> matches s' = matches s"
  by (auto simp: expire_def command_def split: list.splits bool.splits prod.splits if_splits)

lemma setParticipantStatus_matches:
  "setParticipantStatus t pid st data s = (r, s') \<Longrightarrow> matches s' = matches s"
  by (auto simp: setParticipantStatus_def expire_def command_def
           split: list.splits bool.splits prod.splits if_splits)

lemma removeFromQueue_matches:
  "removeFromQueue key pid s = (r, s') \<Longrightarrow> matches s' = matches s"
  by (auto simp: removeFromQueue_def command_def
           split: list.splits bool.splits prod.splits if_splits option.splits)

lemma incrementMatchStats_matches:
  "incrementMatchStats k s = (r, s') \<Longrightarrow> matches s' = matches s"
  by (auto simp: incrementMatchStats_def expire_def command_def
           split: list.splits bool.splits prod.splits if_splits)

lemma both_matches:
  assumes "\<And>s r s'. f s = (r, s') \<Longrightarrow> matches s' = matches s"
      and "\<And>s r s'. g s = (r, s') \<Longrightarrow> matches s' = matches s"
      and "both f g s = (r, s')"
  shows "matches s' = matches s"
proof -
  obtain r1 sa where f: "f s = (r1, sa)" by (cases "f s") auto
  obtain r2 sb where g: "g sa = (r2, sb)" by (cases "g sa") auto
  from assms(3) f g have "s' = sb" by (auto simp: both_def split: sum.splits)
  with assms(1)[OF f] assms(2)[OF g] show ?thesis by simp
qed

lemma createHumanMatch_record:
  assumes "createHumanMatch env a b s = (Inr m, s1)"
  shows "match_type m = ''live'' \<and> \<not> isAI m \<and> match_id m = uuid_human env
       \<and> (\<exists>ok sa. createMatch (now env) (match_id m) (entries m) s = (Inr ok, sa)
              \<and> matches s1 = matches sa)"
proof -
  from assms have ne: "participantId a \<noteq> participantId b"
    by (auto simp: createHumanMatch_def Let_def split: if_splits)
  define name where "name =
      (if truthy_str (participantName b) then the (participantName b)
       else (case getParticipant env (participantId b) of
               Inr participant2Info \<Rightarrow>
                 getPlayerDisplayName env
                   (if js_truthy participant2Info then participant2Info
                    else JObj [(''id'', JStr (participantId b))])
             | Inl dbError \<Rightarrow> getPlayerDisplayName env (JObj [(''id'', JStr (participantId b))])))"
  define md where "md =
     \<lparr>match_id = uuid_human env, participant1_id = participantId a,
      participant2_id = Some (participantId b), round_number = roundNumber a,
      match_type = ''live'', match_status = ''active'', created_at = isoNow env, isAI = False,
      opponent = JSON_stringify (JObj
         [(''name'', JStr name), (''participant_id'', JStr (participantId b)),
          (''skill_level'', JNum (skillLevel b))]),
      aiSettings = None\<rparr>"
  obtain r0 sa where cm: "createMatch (now env) (uuid_human env) (entries md) s = (r0, sa)"
    by (cases "createMatch (now env) (uuid_human env) (entries md) s") auto
  obtain r1 sb where st: "both
        (setParticipantStatus (now env) (participantId a) ''matched'' [(''matchId'', Chars (uuid_human env))])
        (setParticipantStatus (now env) (participantId b) ''matched'' [(''matchId'', Chars (uuid_human env))])
        sa = (r1, sb)"
    by (cases "both
        (setParticipantStatus (now env) (participantId a) ''matched'' [(''matchId'', Chars (uuid_human env))])
        (setParticipantStatus (now env) (participantId b) ''matched'' [(''matchId'', Chars (uuid_human env))])
        sa") auto
  obtain r2 sc where rq: "both (removeFromQueue (queueKey (roundNumber a)) (participantId a))
        (removeFromQueue (queueKey (roundNumber a)) (participantId b)) sb = (r2, sc)"
    by (cases "both (removeFromQueue (queueKey (roundNumber a)) (participantId a))
        (removeFromQueue (queueKey (roundNumber a)) (participantId b)) sb") auto
  obtain r3 sd where inc: "incrementMatchStats ''human_matches'' sc = (r3, sd)"
    by (cases "incrementMatchStats ''human_matches'' sc") auto
  from assms ne cm st rq inc have res: "m = md \<and> s1 = sd \<and> (\<exists>ok. r0 = Inr ok)"
    unfolding createHumanMatch_def Let_def md_def[symmetric] name_def[symmetric]
    by (auto split: sum.splits)
  have f1: "matches sb = matches sa"
    by (rule both_matches[OF _ _ st]) (erule setParticipantStatus_matches)+
  have f2: "matches sc = matches sb"
    by (rule both_matches[OF _ _ rq]) (erule removeFromQueue_matches)+
  have f3: "matches sd = matches sc" by (rule incrementMatchStats_matches[OF inc])
  from res cm f1 f2 f3 show ?thesis by (auto simp: md_def)
qed

lemma createHumanMatch_stored:
  assumes "createHumanMatch env a b s = (Inr m, s1)"
  shows "matches s1 (match_id m) ''match_type'' = Some (Chars ''live'')
       \<and> matches s1 (match_id m) ''isAI'' = Some (Chars ''false'')"
proof -
  from createHumanMatch_record[OF assms] obtain ok sa where
    m: "match_type m = ''live''" "\<not> isAI m"
    and cm: "createMatch (now env) (match_id m) (entries m) s = (Inr ok, sa)"
    and fr: "matches s1 = matches sa" by blast
  show ?thesis
    unfolding fr createMatch_written[OF cm] using m
    by (simp add: entries_def split: option.splits)
qed


lemma ai_createAIMatch_record:
  assumes "ai_createAIMatch env pid r sk = Inr m"
  shows "match_type m = ''human_vs_ai'' \<and> participant2_id m = None \<and> isAI m"
  using assms by (auto simp: ai_createAIMatch_def split: sum.splits)

lemma fallbackMatch_record:
  "isAI (fallbackMatch env p) \<and> participant2_id (fallbackMatch env p) = None"
  by (simp add: fallbackMatch_def Let_def)

lemma cleanupParticipantQueue_matches:
  "matches (cleanupParticipantQueue pid r s) = matches s"
  by (cases "removeFromQueue (queueKey r) pid s")
     (auto simp: cleanupParticipantQueue_def dest: removeFromQueue_matches)

lemma createAIMatch_cases:
  assumes "createAIMatch env p (eng, s) = (m, eng1, s1)"
  shows "m = fallbackMatch env p
       \<or> (ai_createAIMatch env (participantId p) (roundNumber p) (skillLevel p) = Inr m
          \<and> (\<exists>ok sa sb. createMatch (now env) (match_id m) (entries m) sa = (Inr ok, sb)
                \<and> matches s1 = matches sb))"
proof (cases "ai_createAIMatch env (participantId p) (roundNumber p) (skillLevel p)")
  case (Inl e)
  with assms show ?thesis by (simp add: createAIMatch_def Let_def)
next
  case (Inr am)
  let ?s0 = "cleanupParticipantQueue (participantId p) (roundNumber p) s"
  obtain r0 sa where cm: "createMatch (now env) (match_id am) (entries am) ?s0 = (r0, sa)"
    by (cases "createMatch (now env) (match_id am) (entries am) ?s0") auto
  obtain r1 sb where st: "setParticipantStatus (now env) (participantId p) ''matched''
        [(''matchId'', Chars (match_id am)), (''opponentType'', Chars ''ai'')] sa = (r1, sb)"
    by (cases "setParticipantStatus (now env) (participantId p) ''matched''
        [(''matchId'', Chars (match_id am)), (''opponentType'', Chars ''ai'')] sa") auto
  obtain r2 sc where inc: "incrementMatchStats ''ai_matches'' sb = (r2, sc)"
    by (cases "incrementMatchStats ''ai_matches'' sb") auto
  from assms Inr cm st inc
  have "m = fallbackMatch env p \<or> (m = am \<and> s1 = sc \<and> (\<exists>ok. r0 = Inr ok))"
    by (auto simp: createAIMatch_def Let_def split: sum.splits)
  moreover have "matches sc = matches sa"
    using setParticipantStatus_matches[OF st] incrementMatchStats_matches[OF inc] by simp
  ultimately show ?thesis using Inr cm by auto
qed

text \<open>
  Claim C5, as the code has it. A human match that \<^verbatim>\<open>createHumanMatch\<close> returns has
  \<^verbatim>\<open>match_type = 'live'\<close> and \<^verbatim>\<open>isAI = false\<close>, and is in the store so. A match that the
  engine's \<^verbatim>\<open>createAIMatch\<close> returns has \<^verbatim>\<open>isAI = true\<close> and a \<^verbatim>\<open>null\<close> participant 2; unless it
  is the synthesized fallback, it is the AI service's record with
  \<^verbatim>\<open>match_type = 'human_vs_ai'\<close>, and is in the store so (participant 2 as the empty string,
  \<^verbatim>\<open>isAI\<close> as \<^verbatim>\<open>'true'\<close>). Every record of \<^verbatim>\<open>AIOpponentService.createAIMatch\<close> has
  \<^verbatim>\<open>match_type = 'human_vs_ai'\<close>, a \<^verbatim>\<open>null\<close> participant 2 and \<^verbatim>\<open>isAI = true\<close>.
\<close>

theorem engine_match_types:
  "(createHumanMatch env a b s = (Inr m, s1) \<longrightarrow>
      match_type m = ''live'' \<and> \<not> isAI m
      \<and> matches s1 (match_id m) ''match_type'' = Some (Chars ''live'')
      \<and> matches s1 (match_id m) ''isAI'' = Some (Chars ''false''))
   \<and> (createAIMatch env p (eng, s) = (m', eng1, s1') \<longrightarrow>
      isAI m' \<and> participant2_id m' = None
      \<and> (m' = fallbackMatch env p
          \<or> match_type m' = ''human_vs_ai''
            \<and> matches s1' (match_id m') ''match_type'' = Some (Chars ''human_vs_ai'')
            \<and> matches s1' (match_id m') ''participant2_id'' = Some (Chars [])
            \<and> matches s1' (match_id m') ''isAI'' = Some (Chars ''true'')))
   \<and> (ai_createAIMatch env pid r sk = Inr m'' \<longrightarrow>
      match_type m'' = ''human_vs_ai'' \<and> participant2_id m'' = None \<and> isAI m'')"
proof (intro conjI impI)
  assume h: "createHumanMatch env a b s = (Inr m, s1)"
  from createHumanMatch_record[OF h] show "match_type m = ''live''" "\<not> isAI m" by simp_all
  from createHumanMatch_stored[OF h]
  show "matches s1 (match_id m) ''match_type'' = Some (Chars ''live'')"
    "matches s1 (match_id m) ''isAI'' = Some (Chars ''false'')" by simp_all
next
  assume h: "createAIMatch env p (eng, s) = (m', eng1, s1')"
  from createAIMatch_cases[OF h] consider "m' = fallbackMatch env p"
    | ok sa sb where "ai_createAIMatch env (participantId p) (roundNumber p) (skillLevel p) = Inr m'"
        "createMatch (now env) (match_id m') (entries m') sa = (Inr ok, sb)"
        "matches s1' = matches sb" by blast
  then have "isAI m' \<and> participant2_id m' = None
      \<and> (m' = fallbackMatch env p
          \<or> match_type m' = ''human_vs_ai''
            \<and> matches s1' (match_id m') ''match_type'' = Some (Chars ''human_vs_ai'')
            \<and> matches s1' (match_id m') ''participant2_id'' = Some (Chars [])
            \<and> matches s1' (match_id m') ''isAI'' = Some (Chars ''true''))"
  proof cases
    case 1
    then show ?thesis using fallbackMatch_record[of env p] by simp
  next
    case 2
    from ai_createAIMatch_record[OF 2(1)]
    have r: "match_type m' = ''human_vs_ai''" "participant2_id m' = None" "isAI m'" by simp_all
    have "matches s1' (match_id m') ''match_type'' = Some (Chars ''human_vs_ai'')
        \<and> matches s1' (match_id m') ''participant2_id'' = Some (Chars [])
        \<and> matches s1' (match_id m') ''isAI'' = Some (Chars ''true'')"
      unfolding 2(3) createMatch_written[OF 2(2)] using r
      by (simp add: entries_def split: option.splits)
    with r show ?thesis by simp
  qed
  then show "isAI m'" "participant2_id m' = None"
    "m' = fallbackMatch env p
          \<or> match_type m' = ''human_vs_ai''
            \<and> matches s1' (match_id m') ''match_type'' = Some (Chars ''human_vs_ai'')
            \<and> matches s1' (match_id m') ''participant2_id'' = Some (Chars [])
            \<and> matches s1' (match_id m') ''isAI'' = Some (Chars ''true'')" by simp_all
next
  assume h: "ai_createAIMatch env pid r sk = Inr m''"
  from ai_createAIMatch_record[OF h]
  show "match_type m'' = ''human_vs_ai''" "participant2_id m'' = None" "isAI m''" by simp_all
qed

text \<open>Witness: a human match, an AI match and the AI service's record in the example environment.\<close>

theorem engine_match_types_witness:
  "(\<exists>m s1. createHumanMatch example_env (example_participant ''p-a'' 7)
              (example_entry ''p-b'' 7.5 900) empty_store = (Inr m, s1)
       \<and> match_type m = ''live'' \<and> \<not> isAI m
       \<and> matches s1 ''m-human'' ''match_type'' = Some (Chars ''live''))
   \<and> (\<exists>m eng1 s1. createAIMatch example_env (example_participant ''p-a'' 7)
              (idle_engine, empty_store) = (m, eng1, s1)
       \<and> isAI m \<and> participant2_id m = None \<and> match_type m = ''human_vs_ai''
       \<and> matches s1 ''m-ai'' ''match_type'' = Some (Chars ''human_vs_ai''))
   \<and> (\<exists>m. ai_createAIMatch example_env ''p-a'' 1 7 = Inr m
       \<and> match_type m = ''human_vs_ai'' \<and> participant2_id m = None \<and> isAI m)"
proof -
  let ?a = "example_participant ''p-a'' 7"
  let ?b = "example_entry ''p-b'' 7.5 900"
  have "\<exists>m. fst (createHumanMatch example_env ?a ?b empty_store) = Inr m"
    by (simp add: redis_defs engine_defs example_defs Let_def)
  then obtain m s1 where c: "createHumanMatch example_env ?a ?b empty_store = (Inr m, s1)"
    by (metis prod.collapse)
  have idm: "map_sum id match_id (fst (createHumanMatch example_env ?a ?b empty_store)) = Inr ''m-human''"
    by (simp add: redis_defs engine_defs example_defs Let_def)
  with c have mid: "match_id m = ''m-human''" by simp
  from engine_match_types[where env = example_env and a = ?a and b = ?b and s = empty_store
      and m = m and ?s1.0 = s1, THEN conjunct1, rule_format, OF c] mid
  have p1: "match_type m = ''live'' \<and> \<not> isAI m
       \<and> matches s1 ''m-human'' ''match_type'' = Some (Chars ''live'')" by simp
  obtain m' e1 s1' where a: "createAIMatch example_env ?a (idle_engine, empty_store) = (m', e1, s1')"
    by (cases "createAIMatch example_env ?a (idle_engine, empty_store)") auto
  have "match_id (fst (createAIMatch example_env ?a (idle_engine, empty_store))) = ''m-ai''"
    by (simp add: redis_defs engine_defs example_defs ai_defs Let_def)
  with a have mid': "match_id m' = ''m-ai''" by simp
  have nf: "match_id (fallbackMatch example_env ?a) = ''m-fallback''"
    by (simp add: fallbackMatch_def example_defs Let_def)
  with mid' have "m' \<noteq> fallbackMatch example_env ?a" by auto
  with engine_match_types[where env = example_env and p = ?a and eng = idle_engine
      and s = empty_store and m' = m' and ?eng1.0 = e1 and ?s1'.0 = s1',
      THEN conjunct2, THEN conjunct1, rule_format, OF a] mid'
  have p2: "isAI m' \<and> participant2_id m' = None \<and> match_type m' = ''human_vs_ai''
       \<and> matches s1' ''m-ai'' ''match_type'' = Some (Chars ''human_vs_ai'')" by simp
  have "\<exists>m. ai_createAIMatch example_env ''p-a'' 1 7 = Inr m"
    by (simp add: ai_createAIMatch_def ai_defs example_defs)
  then obtain m'' where b: "ai_createAIMatch example_env ''p-a'' 1 7 = Inr m''" by blast
  from engine_match_types[where env = example_env and pid = "''p-a''" and r = 1 and sk = 7
      and m'' = m'', THEN conjunct2, THEN conjunct2, rule_format, OF b]
  have p3: "match_type m'' = ''human_vs_ai'' \<and> participant2_id m'' = None \<and> isAI m''" .
  from c p1 a p2 b p3 show ?thesis by blast
qed

text \<open>
  The claim as stated fails: the human match carries the string \<^verbatim>\<open>live\<close>, and when the second
  client command rejects (the \<^verbatim>\<open>hSet\<close> of \<^verbatim>\<open>createMatch\<close>, after the queue read of the cleanup),
  \<^verbatim>\<open>createAIMatch\<close> returns the fallback, an AI match whose type is \<^verbatim>\<open>live\<close> too.
\<close>

theorem engine_match_types_counterexample:
  "map_sum id match_type
      (fst (createHumanMatch example_env (example_participant ''p-a'' 7)
              (example_entry ''p-b'' 7.5 900) empty_store)) = Inr ''live''
   \<and> isAI (fst (createAIMatch example_env (example_participant ''p-a'' 7)
               (idle_engine, empty_store\<lparr>faults := [False, True]\<rparr>)))
   \<and> match_type (fst (createAIMatch example_env (example_participant ''p-a'' 7)
               (idle_engine, empty_store\<lparr>faults := [False, True]\<rparr>))) = ''live''
   \<and> match_type (fst (createAIMatch example_env (example_participant ''p-a'' 7)
               (idle_engine, empty_store\<lparr>faults := [False, True]\<rparr>))) \<noteq> ''human_vs_ai''
   \<and> ''live'' \<noteq> ''live-human''"
  by (simp add: redis_defs engine_defs example_defs ai_defs Let_def)

subsection \<open>C3: a rejected enqueue does not abort startMatchmaking\<close>



















subsection \<open>C9: the two views of a human match\<close>

lemma match_found_fields [simp]:
  "opponent (match.extend m (match_found.fields role t)) = opponent m"
  "myRole (match.extend m (match_found.fields role t)) = role"
  "timestamp (match.extend m (match_found.fields role t)) = t"
  "participant1_id (match.extend m (match_found.fields role t)) = participant1_id m"
  "participant2_id (match.extend m (match_found.fields role t)) = participant2_id m"
  by (simp_all add: match.extend_def match_found.fields_def)

lemma sendToParticipant_emits:
  assumes "connectedClients d pid = Some c" "socket c"
  shows "emitted (snd (sendToParticipant t pid ev v d)) = emitted d @ [(pid, ev, v)]"
  using assms by (auto simp: sendToParticipant_def)

lemma sendToParticipant_keeps:
  assumes "connectedClients d pid = Some c" "socket c" "connectedClients d q = Some cq" "socket cq"
  shows "\<exists>c'. connectedClients (snd (sendToParticipant t pid ev v d)) q = Some c' \<and> socket c'"
  using assms by (auto simp: sendToParticipant_def)

lemma createHumanMatch_descriptor:
  assumes "createHumanMatch env a b s = (Inr m, s1)"
  shows "property (JSON_parse (opponent m)) ''skill_level'' = Inr (JNum (skillLevel b))
       \<and> \<not> isAI m \<and> participant2_id m = Some (participantId b)
       \<and> participant1_id m = participantId a"
proof -
  from assms have ne: "participantId a \<noteq> participantId b"
    by (auto simp: createHumanMatch_def Let_def split: if_splits)
  from assms ne show ?thesis
    by (auto simp: createHumanMatch_def Let_def JSON_stringify_def split: prod.splits sum.splits)
qed

text \<open>
  Claim C9. For a human match whose two participants are connected, \<^verbatim>\<open>notifyMatchFound\<close>
  emits two \<^verbatim>\<open>match_found\<close> events, first to participant 1, then to participant 2. The
  descriptor sent to participant 1 carries the \<^verbatim>\<open>skill_level\<close> parsed from the record's
  \<^verbatim>\<open>opponent\<close> field, with \<^verbatim>\<open>myRole = 'participant1'\<close>; the descriptor sent to participant 2
  carries \<^verbatim>\<open>skill_level = 7\<close>, with \<^verbatim>\<open>myRole = 'participant2'\<close>. For a record made by
  \<^verbatim>\<open>createHumanMatch\<close> the parsed skill level is participant 2's, and the skill of
  participant 1 appears nowhere.
\<close>

theorem notifyMatchFound_views:
  "(\<not> isAI m \<and> participant2_id m = Some p2 \<and> participant1_id m = p1
      \<and> connectedClients d p1 = Some c1 \<and> socket c1
      \<and> connectedClients d p2 = Some c2 \<and> socket c2
      \<and> property (JSON_parse (opponent m)) ''skill_level'' = Inr skill \<longrightarrow>
      (\<exists>v1 v2. emitted (notifyMatchFound t m d)
                  = emitted d @ [(p1, ''match_found'', v1), (p2, ''match_found'', v2)]
         \<and> myRole v1 = ''participant1''
         \<and> opponent v1 = JSON_stringify (JObj
              [(''name'', JStr (peer_name d p2)), (''participant_id'', JStr p2),
               (''skill_level'', skill)])
         \<and> myRole v2 = ''participant2''
         \<and> opponent v2 = JSON_stringify (JObj
              [(''name'', JStr (peer_name d p1)), (''participant_id'', JStr p1),
               (''skill_level'', JNum 7)])))
   \<and> (createHumanMatch env a b s = (Inr m', s1) \<longrightarrow>
      property (JSON_parse (opponent m')) ''skill_level'' = Inr (JNum (skillLevel b))
      \<and> \<not> isAI m' \<and> participant2_id m' = Some (participantId b)
      \<and> participant1_id m' = participantId a)"
proof (intro conjI impI)
  assume h: "\<not> isAI m \<and> participant2_id m = Some p2 \<and> participant1_id m = p1
      \<and> connectedClients d p1 = Some c1 \<and> socket c1
      \<and> connectedClients d p2 = Some c2 \<and> socket c2
      \<and> property (JSON_parse (opponent m)) ''skill_level'' = Inr skill"
  let ?v1 = "match.extend
               (m\<lparr>opponent := JSON_stringify (JObj
                  [(''name'', JStr (peer_name d p2)), (''participant_id'', JStr p2),
                   (''skill_level'', skill)])\<rparr>)
               (match_found.fields ''participant1'' t)"
  let ?v2 = "match.extend
               (m\<lparr>opponent := JSON_stringify (JObj
                  [(''name'', JStr (peer_name d p1)), (''participant_id'', JStr p1),
                   (''skill_level'', JNum 7)])\<rparr>)
               (match_found.fields ''participant2'' t)"
  let ?d1 = "snd (sendToParticipant t p1 ''match_found'' ?v1 d)"
  from h have n: "notifyMatchFound t m d = snd (sendToParticipant t p2 ''match_found'' ?v2 ?d1)"
    by (simp add: notifyMatchFound_def Let_def)
  from h have e1: "emitted ?d1 = emitted d @ [(p1, ''match_found'', ?v1)]"
    by (intro sendToParticipant_emits) auto
  from h obtain c' where c': "connectedClients ?d1 p2 = Some c'" "socket c'"
    using sendToParticipant_keeps[of d p1 c1 p2 c2 t "''match_found''" ?v1] by auto
  have e2: "emitted (notifyMatchFound t m d)
              = emitted d @ [(p1, ''match_found'', ?v1), (p2, ''match_found'', ?v2)]"
    unfolding n using sendToParticipant_emits[OF c', of t "''match_found''" ?v2] e1
    by simp
  show "\<exists>v1 v2. emitted (notifyMatchFound t m d)
                  = emitted d @ [(p1, ''match_found'', v1), (p2, ''match_found'', v2)]
         \<and> myRole v1 = ''participant1''
         \<and> opponent v1 = JSON_stringify (JObj
              [(''name'', JStr (peer_name d p2)), (''participant_id'', JStr p2),
               (''skill_level'', skill)])
         \<and> myRole v2 = ''participant2''
         \<and> opponent v2 = JSON_stringify (JObj
              [(''name'', JStr (peer_name d p1)), (''participant_id'', JStr p1),
               (''skill_level'', JNum 7)])"
    by (intro exI[of _ ?v1] exI[of _ ?v2]) (simp add: e2)
next
  assume "createHumanMatch env a b s = (Inr m', s1)"
  from createHumanMatch_descriptor[OF this]
  show "property (JSON_parse (opponent m')) ''skill_level'' = Inr (JNum (skillLevel b))"
    "\<not> isAI m'" "participant2_id m' = Some (participantId b)"
    "participant1_id m' = participantId a" by simp_all
qed

text \<open>Witness: \<^verbatim>\<open>p-a\<close> of skill 3 is matched with \<^verbatim>\<open>p-b\<close> of skill 7.5; \<^verbatim>\<open>p-b\<close> is told 7.\<close>

theorem notifyMatchFound_views_witness:
  "fst (createHumanMatch example_env (example_participant ''p-a'' 3)
          (example_entry ''p-b'' 7.5 900) empty_store) = Inr example_human_match
   \<and> (\<exists>v1 v2. emitted (notifyMatchFound 2000 example_human_match example_dispatcher)
                  = [(''p-a'', ''match_found'', v1), (''p-b'', ''match_found'', v2)]
         \<and> myRole v1 = ''participant1''
         \<and> opponent v1 = JSON_stringify (JObj
              [(''name'', JStr ''Player p-b''), (''participant_id'', JStr ''p-b''),
               (''skill_level'', JNum 7.5)])
         \<and> myRole v2 = ''participant2''
         \<and> opponent v2 = JSON_stringify (JObj
              [(''name'', JStr ''Ann''), (''participant_id'', JStr ''p-a''),
               (''skill_level'', JNum 7)]))"
proof -
  let ?a = "example_participant ''p-a'' 3"
  let ?b = "example_entry ''p-b'' 7.5 900"
  have made: "fst (createHumanMatch example_env ?a ?b empty_store) = Inr example_human_match"
    by (simp add: redis_defs engine_defs example_defs example_human_match_def example_dispatcher_def Let_def)
  then have c: "createHumanMatch example_env ?a ?b empty_store
                  = (Inr example_human_match, snd (createHumanMatch example_env ?a ?b empty_store))"
    by (metis prod.collapse)
  from notifyMatchFound_views[where env = example_env and a = ?a and b = ?b and s = empty_store
      and m' = example_human_match, THEN conjunct2, rule_format, OF c]
  have sk: "property (JSON_parse (opponent example_human_match)) ''skill_level'' = Inr (JNum 7.5)"
    and h: "\<not> isAI example_human_match" "participant2_id example_human_match = Some ''p-b''"
      "participant1_id example_human_match = ''p-a''"
    by (simp_all add: example_defs example_human_match_def example_dispatcher_def)
  have cl: "connectedClients example_dispatcher ''p-a''
              = Some \<lparr>client_name = Some ''Ann'', socket = True, lastSeen = 0\<rparr>"
    "connectedClients example_dispatcher ''p-b''
              = Some \<lparr>client_name = None, socket = True, lastSeen = 0\<rparr>"
    "emitted example_dispatcher = []"
    by (simp_all add: example_dispatcher_def)
  have names: "peer_name example_dispatcher ''p-a'' = ''Ann''"
    "peer_name example_dispatcher ''p-b'' = ''Player p-b''"
    by (simp_all add: peer_name_def example_dispatcher_def slice_last4_def)
  from notifyMatchFound_views[where m = example_human_match and ?p1.0 = "''p-a''"
      and ?p2.0 = "''p-b''" and d = example_dispatcher and t = 2000 and skill = "JNum 7.5"
      and ?c1.0 = "\<lparr>client_name = Some ''Ann'', socket = True, lastSeen = 0\<rparr>"
      and ?c2.0 = "\<lparr>client_name = None, socket = True, lastSeen = 0\<rparr>",
      THEN conjunct1, rule_format] sk h cl
  have "\<exists>v1 v2. emitted (notifyMatchFound 2000 example_human_match example_dispatcher)
                  = emitted example_dispatcher
                    @ [(''p-a'', ''match_found'', v1), (''p-b'', ''match_found'', v2)]
         \<and> myRole v1 = ''participant1''
         \<and> opponent v1 = JSON_stringify (JObj
              [(''name'', JStr (peer_name example_dispatcher ''p-b'')),
               (''participant_id'', JStr ''p-b''), (''skill_level'', JNum 7.5)])
         \<and> myRole v2 = ''participant2''
         \<and> opponent v2 = JSON_stringify (JObj
              [(''name'', JStr (peer_name example_dispatcher ''p-a'')),
               (''participant_id'', JStr ''p-a''), (''skill_level'', JNum 7)])"
    by simp
  with made show ?thesis unfolding names cl by simp
qed

end
